theory Spec2Isabelle
  imports Complex_Main
begin

section \<open>The sample application (apps/sample-node-app/server.js)\<close>

subsection \<open>Numbers\<close>

text \<open>
  The three counters of the sample application hold integers: they start at 0 and
  are only changed by \<open>++\<close> and by adding a difference of two \<open>Date.now()\<close>
  readings (integer milliseconds). Quotients are kept as exact rationals; the rounding
  of the double-precision result is not modelled. A JavaScript division by zero does not
  raise: it yields \<open>NaN\<close> or a signed infinity.
\<close>

datatype number = Num rat | NaN | PosInfinity | NegInfinity

definition js_div :: "int \<Rightarrow> int \<Rightarrow> number" where
  "js_div a b =
     (if b = 0 then (if a = 0 then NaN else if 0 < a then PosInfinity else NegInfinity)
      else Num (of_int a / of_int b))"

definition js_floor :: "rat \<Rightarrow> int" where
  "js_floor x = \<lfloor>x\<rfloor>"

subsection \<open>State, requests and responses\<close>

text \<open>
  \<open>let requestCount = 0; let errorCount = 0; let responseTimeSum = 0;\<close>
\<close>

record app_state =
  requestCount :: int
  errorCount :: int
  responseTimeSum :: int

definition initial_state :: app_state where
  "initial_state = \<lparr>requestCount = 0, errorCount = 0, responseTimeSum = 0\<rparr>"

text \<open>
  A template literal is a sequence of literal chunks and interpolated numbers; the
  conversion of a number to text (\<open>Number.prototype.toString\<close>) belongs to the
  language, not to the application, and is applied when a response is rendered.
\<close>

datatype segment = Lit string | Interp number

type_synonym template = "segment list"

datatype body =
    HealthFailure
  | HealthOk int int number
  | Users int
  | Orders int
  | OrdersFailure
  | Load string nat
  | MetricsText "template list"

datatype response = Response (status_code: nat) (body: body)

text \<open>
  What a handler reads from its environment is part of the request: the value of
  \<open>Math.random()\<close> that decides the simulated failure, the two readings of
  \<open>Date.now()\<close> (at the start of the handler and when the response time is taken),
  the \<open>intensity\<close> field of the body of \<open>POST /api/load\<close> (absent: \<open>None\<close>) and
  the value of \<open>process.uptime()\<close>. \<open>Date.now()\<close> reads the wall clock, so nothing
  orders the two readings. The thresholds \<open>0.1\<close> and \<open>0.15\<close> of the simulated failures
  are read as the exact decimals.
\<close>

datatype request =
    GetHealth rat int int
  | GetUsers int int
  | GetOrders rat int int
  | PostLoad "string option"
  | GetMetrics rat

subsection \<open>The handlers\<close>

definition health :: "rat \<Rightarrow> int \<Rightarrow> int \<Rightarrow> app_state \<Rightarrow> response \<times> app_state" where
  "health rnd startTime now s =
     (if rnd < 1 / 10
      then (Response 500 HealthFailure, s\<lparr>errorCount := errorCount s + 1\<rparr>)
      else
        (let s1 = s\<lparr>requestCount := requestCount s + 1\<rparr>;
             responseTime = now - startTime;
             s2 = s1\<lparr>responseTimeSum := responseTimeSum s1 + responseTime\<rparr>
         in (Response 200
               (HealthOk (requestCount s2) (errorCount s2)
                  (js_div (responseTimeSum s2) (requestCount s2))),
             s2)))"

text \<open>
  The \<open>try\<close> block of \<open>/api/users\<close> awaits a timer and has no statement that throws,
  so its \<open>catch\<close> branch is not a branch of the model.
\<close>

definition users :: "int \<Rightarrow> int \<Rightarrow> app_state \<Rightarrow> response \<times> app_state" where
  "users startTime now s =
     (let s1 = s\<lparr>requestCount := requestCount s + 1\<rparr>;
          responseTime = now - startTime;
          s2 = s1\<lparr>responseTimeSum := responseTimeSum s1 + responseTime\<rparr>
      in (Response 200 (Users responseTime), s2))"

definition orders :: "rat \<Rightarrow> int \<Rightarrow> int \<Rightarrow> app_state \<Rightarrow> response \<times> app_state" where
  "orders rnd startTime now s =
     (if rnd < 15 / 100
      then (Response 503 OrdersFailure, s\<lparr>errorCount := errorCount s + 1\<rparr>)
      else
        (let s1 = s\<lparr>requestCount := requestCount s + 1\<rparr>;
             responseTime = now - startTime;
             s2 = s1\<lparr>responseTimeSum := responseTimeSum s1 + responseTime\<rparr>
         in (Response 200 (Orders responseTime), s2)))"

text \<open>
  \<open>const delays = { low: 50, medium: 150, high: 300 }; delays[intensity] || delays.medium\<close>,
  for an \<open>intensity\<close> that is a string; only the three keys of the literal are looked up.
\<close>

definition delays :: "string \<Rightarrow> nat" where
  "delays intensity =
     (if intensity = ''low'' then 50
      else if intensity = ''medium'' then 150
      else if intensity = ''high'' then 300
      else 150)"

definition load :: "string option \<Rightarrow> app_state \<Rightarrow> response \<times> app_state" where
  "load body_intensity s =
     (let intensity = (case body_intensity of None \<Rightarrow> ''medium'' | Some i \<Rightarrow> i);
          delay = delays intensity
      in (Response 200 (Load intensity delay), s\<lparr>requestCount := requestCount s + 1\<rparr>))"

text \<open>
  The interpolated expression
  \<open>requestCount > 0 ? responseTimeSum / requestCount : 0\<close> of \<open>app.get('/metrics')\<close>.
\<close>

definition http_response_time_avg :: "app_state \<Rightarrow> number" where
  "http_response_time_avg s =
     (if requestCount s > 0 then js_div (responseTimeSum s) (requestCount s) else Num 0)"

text \<open>The array \<open>const metrics = [ ... ]\<close> of the same handler.\<close>

definition metrics_array :: "rat \<Rightarrow> app_state \<Rightarrow> template list" where
  "metrics_array uptime s =
     [ [Lit ''# HELP http_requests_total Total number of HTTP requests''],
       [Lit ''# TYPE http_requests_total counter''],
       [Lit ''http_requests_total '', Interp (Num (of_int (requestCount s)))],
       [Lit ''''],
       [Lit ''# HELP http_errors_total Total number of HTTP errors''],
       [Lit ''# TYPE http_errors_total counter''],
       [Lit ''http_errors_total '', Interp (Num (of_int (errorCount s)))],
       [Lit ''''],
       [Lit ''# HELP http_response_time_avg Average HTTP response time''],
       [Lit ''# TYPE http_response_time_avg gauge''],
       [Lit ''http_response_time_avg '', Interp (http_response_time_avg s)],
       [Lit ''''],
       [Lit ''# HELP app_uptime Application uptime in seconds''],
       [Lit ''# TYPE app_uptime gauge''],
       [Lit ''app_uptime '', Interp (Num (of_int (js_floor uptime)))] ]"

definition metrics :: "rat \<Rightarrow> app_state \<Rightarrow> response \<times> app_state" where
  "metrics uptime s = (Response 200 (MetricsText (metrics_array uptime s)), s)"

fun handle :: "request \<Rightarrow> app_state \<Rightarrow> response \<times> app_state" where
  "handle (GetHealth rnd startTime now) s = health rnd startTime now s"
| "handle (GetUsers startTime now) s = users startTime now s"
| "handle (GetOrders rnd startTime now) s = orders rnd startTime now s"
| "handle (PostLoad body_intensity) s = load body_intensity s"
| "handle (GetMetrics uptime) s = metrics uptime s"

text \<open>
  Every handler changes the counters in one synchronous stretch of code, so a process
  lifetime is a sequence of requests in the order in which their handlers reach that
  stretch.
\<close>

fun run :: "request list \<Rightarrow> app_state \<Rightarrow> app_state" where
  "run [] s = s"
| "run (rq # rqs) s = run rqs (snd (handle rq s))"

text \<open>The wall clock did not step back between the two readings of a request.\<close>

fun clock_monotone :: "request \<Rightarrow> bool" where
  "clock_monotone (GetHealth rnd startTime now) = (startTime \<le> now)"
| "clock_monotone (GetUsers startTime now) = (startTime \<le> now)"
| "clock_monotone (GetOrders rnd startTime now) = (startTime \<le> now)"
| "clock_monotone (PostLoad body_intensity) = True"
| "clock_monotone (GetMetrics uptime) = True"

subsection \<open>Rendering a text response\<close>

text \<open>
  \<open>res.send(metrics.join('\n'))\<close>: every template is rendered with the language's
  number-to-string conversion, and the lines are joined with a newline.
\<close>

fun render_segment :: "(number \<Rightarrow> string) \<Rightarrow> segment \<Rightarrow> string" where
  "render_segment toString (Lit l) = l"
| "render_segment toString (Interp n) = toString n"

definition render_template :: "(number \<Rightarrow> string) \<Rightarrow> template \<Rightarrow> string" where
  "render_template toString t = concat (map (render_segment toString) t)"

fun join :: "string \<Rightarrow> string list \<Rightarrow> string" where
  "join sep [] = []"
| "join sep [l] = l"
| "join sep (l # ls) = l @ sep @ join sep ls"

definition newline :: char where
  "newline = CHR 0x0A"

definition response_text :: "(number \<Rightarrow> string) \<Rightarrow> response \<Rightarrow> string option" where
  "response_text toString r =
     (case body r of
        MetricsText ts \<Rightarrow> Some (join [newline] (map (render_template toString) ts))
      | _ \<Rightarrow> None)"

text \<open>
  The reader's side of the exposition format: the text is split into lines, blank lines
  and comment lines (starting with \<open>#\<close>) carry no sample, and a sample line is a key,
  one space, and a value.
\<close>

fun split_on :: "char \<Rightarrow> string \<Rightarrow> string list" where
  "split_on c [] = [[]]"
| "split_on c (x # xs) =
     (if x = c then [] # split_on c xs
      else (case split_on c xs of [] \<Rightarrow> [[x]] | l # ls \<Rightarrow> (x # l) # ls))"

definition is_sample :: "string \<Rightarrow> bool" where
  "is_sample l = (case l of [] \<Rightarrow> False | x # _ \<Rightarrow> x \<noteq> CHR ''#'')"

definition parse_sample :: "string \<Rightarrow> string \<times> string" where
  "parse_sample l = (takeWhile (\<lambda>x. x \<noteq> CHR '' '') l, drop 1 (dropWhile (\<lambda>x. x \<noteq> CHR '' '') l))"

definition samples :: "string \<Rightarrow> (string \<times> string) list" where
  "samples txt = map parse_sample (filter is_sample (split_on newline txt))"

text \<open>
  A number-to-string conversion to run examples with: exact on integer-valued numbers
  (decimal digits, as \<open>Number.prototype.toString\<close> prints them), and the integer part
  only of any other rational.
\<close>

fun digits :: "nat \<Rightarrow> string" where
  "digits n =
     (if n < 10 then [''0123456789'' ! n]
      else digits (n div 10) @ [''0123456789'' ! (n mod 10)])"

definition integer_string :: "int \<Rightarrow> string" where
  "integer_string i = (if i < 0 then CHR ''-'' # digits (nat (- i)) else digits (nat i))"

fun integral_toString :: "number \<Rightarrow> string" where
  "integral_toString (Num q) = integer_string (js_floor q)"
| "integral_toString NaN = ''NaN''"
| "integral_toString PosInfinity = ''Infinity''"
| "integral_toString NegInfinity = ''-Infinity''"

section \<open>The dashboard's SLA panel (frontend/dashboard/src/components/SLAMetrics.js)\<close>

text \<open>
  The \<open>data\<close> property of the component is the JSON object of \<open>GET /sla\<close>. A JSON number
  is a finite double, so it is a rational, and \<open>>=\<close> on two of them is the order of the
  rationals.
\<close>

record sla_data =
  availability_percentage :: rat
  uptime_percentage :: rat
  downtime_minutes :: rat
  sla_target :: rat
  mttr_minutes :: rat
  incident_count :: rat
  last_updated :: string

definition getAvailabilityColor :: "rat \<Rightarrow> string" where
  "getAvailabilityColor percentage =
     (if percentage \<ge> 999 / 10 then ''text-green-400''
      else if percentage \<ge> 99 then ''text-yellow-400''
      else ''text-red-400'')"

definition getAvailabilityStatus :: "rat \<Rightarrow> string" where
  "getAvailabilityStatus percentage =
     (if percentage \<ge> 999 / 10 then ''Excellent''
      else if percentage \<ge> 99 then ''Good''
      else if percentage \<ge> 95 then ''Fair''
      else ''Poor'')"

text \<open>
  What the component renders from \<open>data\<close>, apart from the numbers it prints as they are:
  the colour and the word of the availability figure, the warning icon beside the open
  incidents, the colour of the uptime figure, and the class and the text of the
  compliance indicator.
\<close>

record sla_panel =
  availability_color :: string
  availability_status :: string
  incident_warning :: bool
  uptime_color :: string
  compliance_class :: string
  compliance_text :: string

datatype sla_view = NoSLAData | SLAPanel sla_panel

definition SLAMetrics :: "sla_data option \<Rightarrow> sla_view" where
  "SLAMetrics data =
     (case data of
        None \<Rightarrow> NoSLAData
      | Some d \<Rightarrow>
          SLAPanel
            \<lparr>availability_color = getAvailabilityColor (availability_percentage d),
             availability_status = getAvailabilityStatus (availability_percentage d),
             incident_warning = (incident_count d > 0),
             uptime_color = getAvailabilityColor (uptime_percentage d),
             compliance_class =
               (if availability_percentage d \<ge> sla_target d
                then ''bg-green-400/20 text-green-400''
                else ''bg-red-400/20 text-red-400''),
             compliance_text =
               (if availability_percentage d \<ge> sla_target d
                then ''COMPLIANT'' else ''NON-COMPLIANT'')\<rparr>)"

section \<open>The aggregation backend (backend/api)\<close>

text \<open>
  The dashboard calls the backend (\<open>GET /health\<close>, \<open>/metrics\<close>, \<open>/incidents\<close>, \<open>/sla\<close>,
  \<open>POST /incidents/{id}/analyze\<close>, \<open>POST /demo/generate-incidents\<close>), but the backend's
  own code is not among the sources. Its components are modelled here from sections 3
  and 4 of the specification. Instants and durations are in minutes.
\<close>

type_synonym target_id = string

type_synonym instant = rat

subsection \<open>Telemetry Counter Store\<close>

text \<open>
  Modelled from the spec: the CounterSnapshot of section 3 (the backend's data model is
  missing from the sources). The two counters carry a suffix, the sample application's
  state has fields of the same names.
\<close>

record counter_snapshot =
  requestCount_snapshot :: int
  errorCount_snapshot :: int
  responseTimeAvgMs :: rat
  timestamp :: instant

text \<open>
  Modelled from the spec: the state of the Telemetry Counter Store of section 4.1 (missing
  from the sources): per target, the retained snapshots in the order of their insertion.
\<close>

type_synonym counter_store = "target_id \<Rightarrow> counter_snapshot list"

text \<open>
  Modelled from the spec: \<open>record(targetId, snapshot)\<close> of section 4.1 (missing from the
  sources): appends a snapshot and evicts the oldest ones beyond the retention cap.
\<close>

definition record_snapshot ::
    "nat \<Rightarrow> target_id \<Rightarrow> counter_snapshot \<Rightarrow> counter_store \<Rightarrow> counter_store" where
  "record_snapshot cap targetId snapshot store =
     store (targetId :=
       (let xs = store targetId @ [snapshot] in drop (length xs - cap) xs))"

text \<open>
  Modelled from the spec: \<open>latest(targetId)\<close> of section 4.1 (missing from the sources):
  the most recent snapshot, or no data.
\<close>

definition latest :: "target_id \<Rightarrow> counter_store \<Rightarrow> counter_snapshot option" where
  "latest targetId store =
     (case store targetId of [] \<Rightarrow> None | x # xs \<Rightarrow> Some (last (x # xs)))"

text \<open>
  Modelled from the spec: the derived rate of section 4.1 (missing from the sources),
  \<open>errorRate = errorCount / max(requestCount,1)\<close>.
\<close>

definition errorRate :: "counter_snapshot \<Rightarrow> rat" where
  "errorRate snapshot =
     of_int (errorCount_snapshot snapshot) / of_int (max (requestCount_snapshot snapshot) 1)"

subsection \<open>Health Evaluator\<close>

text \<open>
  Modelled from the spec: the health states of section 3 (the backend's data model is
  missing from the sources).
\<close>

datatype health_status = Healthy | Degraded | Unhealthy | Unknown

text \<open>
  Modelled from the spec: the thresholds of the classification rule of section 4.2
  (missing from the sources), which the spec leaves to the implementer: a high and a low
  error rate (for example 10% and 1%) and a latency in milliseconds.
\<close>

record thresholds =
  unhealthyErrorRate :: rat
  degradedErrorRate :: rat
  latencyThresholdMs :: rat

text \<open>
  Modelled from the spec: the HealthRecord of section 3 (missing from the sources).
\<close>

record health_record =
  healthStatus :: health_status
  lastCheckedAt :: instant

text \<open>
  Modelled from the spec: the classification rule of section 4.2 (the evaluator is
  missing from the sources), its four cases in the order in which the spec lists them.
  \<open>checkFailed\<close> says that the most recent check failed outright.
\<close>

definition classify :: "thresholds \<Rightarrow> bool \<Rightarrow> counter_snapshot option \<Rightarrow> health_status" where
  "classify th checkFailed snapshot =
     (case snapshot of
        None \<Rightarrow> Unknown
      | Some sn \<Rightarrow>
          if checkFailed \<or> errorRate sn \<ge> unhealthyErrorRate th then Unhealthy
          else if errorRate sn \<ge> degradedErrorRate th
                  \<or> responseTimeAvgMs sn > latencyThresholdMs th then Degraded
          else Healthy)"

text \<open>
  Modelled from the spec: \<open>evaluate(targetId) -> HealthRecord\<close> of section 4.2 (missing
  from the sources), recomputed from the latest snapshot of the target.
\<close>

definition evaluate ::
    "thresholds \<Rightarrow> counter_store \<Rightarrow> bool \<Rightarrow> instant \<Rightarrow> target_id \<Rightarrow> health_record" where
  "evaluate th store checkFailed now targetId =
     \<lparr>healthStatus = classify th checkFailed (latest targetId store), lastCheckedAt = now\<rparr>"

subsection \<open>Incident Manager\<close>

text \<open>
  Modelled from the spec: the severities of an Incident, section 3 (the backend's data
  model is missing from the sources).
\<close>

datatype severity = Low | Medium | High

text \<open>
  Modelled from the spec: the two states of an Incident, section 3 and the state machine
  of section 4.3 (missing from the sources).
\<close>

datatype incident_status = Open | Resolved

text \<open>
  Modelled from the spec: the Incident of section 3 (the backend's data model is missing
  from the sources). The field \<open>id\<close> carries a prefix, \<open>id\<close> is the identity function.
\<close>

record incident =
  incident_id :: nat
  title :: string
  description :: string
  severity :: severity
  status :: incident_status
  createdAt :: instant
  resolvedAt :: "instant option"
  aiAnalysis :: "string option"
  sourceTargetId :: target_id

text \<open>
  Modelled from the spec: the state of the Incident Manager (missing from the sources):
  the incidents, most recent first, never deleted, and the next identifier (identifiers
  are unique and monotonic).
\<close>

record incident_manager =
  incidents :: "incident list"
  next_id :: nat

text \<open>
  Modelled from the spec: the Incident Manager at the start of the process (missing from
  the sources): no incident yet.
\<close>

definition initial_manager :: incident_manager where
  "initial_manager = \<lparr>incidents = [], next_id = 1\<rparr>"

text \<open>
  Modelled from the spec: the error taxonomy of section 7 (missing from the sources), the
  two errors that are surfaced to the caller.
\<close>

datatype error = NotFoundError | ValidationError

text \<open>
  Modelled from the spec: \<open>create(title, description, severity, sourceTargetId)\<close> of
  section 4.3 (missing from the sources): always succeeds, assigns a unique id and
  \<open>createdAt = now\<close>, initial \<open>status = open\<close>, \<open>aiAnalysis = null\<close>.
\<close>

definition create ::
    "string \<Rightarrow> string \<Rightarrow> severity \<Rightarrow> target_id \<Rightarrow> instant \<Rightarrow> incident_manager
       \<Rightarrow> incident \<times> incident_manager" where
  "create ttl descr sev targetId now m =
     (let i = \<lparr>incident_id = next_id m, title = ttl, description = descr, severity = sev,
                status = Open, createdAt = now, resolvedAt = None, aiAnalysis = None,
                sourceTargetId = targetId\<rparr>
      in (i, \<lparr>incidents = i # incidents m, next_id = next_id m + 1\<rparr>))"

text \<open>
  Modelled from the spec: the open incidents of a target, which the deduplication of
  section 4.3 (missing from the sources) looks for.
\<close>

definition open_incidents :: "target_id \<Rightarrow> incident_manager \<Rightarrow> incident list" where
  "open_incidents targetId m =
     filter (\<lambda>i. sourceTargetId i = targetId \<and> status i = Open) (incidents m)"

text \<open>
  Modelled from the spec: the degradations of section 4.3 (missing from the sources):
  healthy or degraded to unhealthy, or healthy to degraded.
\<close>

definition is_degradation :: "health_status \<Rightarrow> health_status \<Rightarrow> bool" where
  "is_degradation fromStatus toStatus =
     ((toStatus = Unhealthy \<and> (fromStatus = Healthy \<or> fromStatus = Degraded))
      \<or> (fromStatus = Healthy \<and> toStatus = Degraded))"

text \<open>
  Modelled from the spec: \<open>createFromHealthTransition(targetId, fromStatus, toStatus)\<close>
  of section 4.3 (missing from the sources): for a degradation it creates an incident,
  unless an open incident exists for the same \<open>sourceTargetId\<close>. The spec does not fix
  the title, the description and the severity of the incident; the ones here stand for
  them.
\<close>

definition createFromHealthTransition ::
    "target_id \<Rightarrow> health_status \<Rightarrow> health_status \<Rightarrow> instant \<Rightarrow> incident_manager
       \<Rightarrow> incident option \<times> incident_manager" where
  "createFromHealthTransition targetId fromStatus toStatus now m =
     (if \<not> is_degradation fromStatus toStatus then (None, m)
      else if open_incidents targetId m \<noteq> [] then (None, m)
      else
        (let (i, m') =
               create ''Health degradation'' ''Reported by the Health Evaluator''
                 (if toStatus = Unhealthy then High else Medium) targetId now m
         in (Some i, m')))"

text \<open>
  Modelled from the spec: looking an incident up by its id, for \<open>attachAnalysis\<close> and
  \<open>resolve\<close> of section 4.3 (missing from the sources).
\<close>

definition lookup :: "nat \<Rightarrow> incident_manager \<Rightarrow> incident option" where
  "lookup iid m = find (\<lambda>i. incident_id i = iid) (incidents m)"

text \<open>
  Modelled from the spec: the mutation of one incident in place (section 3: an incident is
  mutated, never deleted; the Incident Manager is missing from the sources). The other
  incidents and the order stay as they are.
\<close>

definition update_incident ::
    "nat \<Rightarrow> (incident \<Rightarrow> incident) \<Rightarrow> incident_manager \<Rightarrow> incident_manager" where
  "update_incident iid f m =
     m\<lparr>incidents := map (\<lambda>i. if incident_id i = iid then f i else i) (incidents m)\<rparr>"

text \<open>
  Modelled from the spec: \<open>attachAnalysis(incidentId, text)\<close> of section 4.3 (missing from
  the sources): sets \<open>aiAnalysis\<close> if it is null, is a no-op, not an error, if it is set;
  an unknown id is a \<open>NotFoundError\<close> (section 7).
\<close>

definition attachAnalysis ::
    "nat \<Rightarrow> string \<Rightarrow> incident_manager \<Rightarrow> (error + incident) \<times> incident_manager" where
  "attachAnalysis iid txt m =
     (case lookup iid m of
        None \<Rightarrow> (Inl NotFoundError, m)
      | Some i \<Rightarrow>
          (case aiAnalysis i of
             Some a \<Rightarrow> (Inr i, m)
           | None \<Rightarrow>
               (Inr (i\<lparr>aiAnalysis := Some txt\<rparr>),
                update_incident iid (\<lambda>j. j\<lparr>aiAnalysis := Some txt\<rparr>) m)))"

text \<open>
  Modelled from the spec: \<open>resolve(incidentId)\<close> of section 4.3 (missing from the
  sources): sets \<open>status = resolved\<close> and \<open>resolvedAt = now\<close>, fails with \<open>NotFoundError\<close>
  if the id is unknown, and is a no-op if the incident is resolved already.
\<close>

definition resolve ::
    "nat \<Rightarrow> instant \<Rightarrow> incident_manager \<Rightarrow> (error + incident) \<times> incident_manager" where
  "resolve iid now m =
     (case lookup iid m of
        None \<Rightarrow> (Inl NotFoundError, m)
      | Some i \<Rightarrow>
          (case status i of
             Resolved \<Rightarrow> (Inr i, m)
           | Open \<Rightarrow>
               (Inr (i\<lparr>status := Resolved, resolvedAt := Some now\<rparr>),
                update_incident iid (\<lambda>j. j\<lparr>status := Resolved, resolvedAt := Some now\<rparr>) m)))"

text \<open>
  Modelled from the spec: \<open>list()\<close> of section 4.3 (missing from the sources), most recent
  first.
\<close>

definition list_incidents :: "incident_manager \<Rightarrow> incident list" where
  "list_incidents m = incidents m"

text \<open>
  Modelled from the spec: the demo-generation mode of section 4.3 (missing from the
  sources): a batch of incidents, each created without the deduplication. The spec
  leaves the batch to the implementer, so it is an argument.
\<close>

fun generateDemoIncidents ::
    "(string \<times> string \<times> severity \<times> target_id) list \<Rightarrow> instant \<Rightarrow> incident_manager
       \<Rightarrow> incident list \<times> incident_manager" where
  "generateDemoIncidents [] now m = ([], m)"
| "generateDemoIncidents ((ttl, descr, sev, targetId) # batch) now m =
     (let (i, m1) = create ttl descr sev targetId now m;
          (is, m2) = generateDemoIncidents batch now m1
      in (i # is, m2))"

text \<open>
  Modelled from the spec: the commands of the Incident Manager (section 4.3, missing from
  the sources) and the states it reaches: every state of a process lifetime is the result
  of a sequence of commands, each at its instant, from the initial state.
\<close>

datatype command =
    Create string string severity target_id
  | CreateFromHealthTransition target_id health_status health_status
  | AttachAnalysis nat string
  | Resolve nat
  | GenerateDemoIncidents "(string \<times> string \<times> severity \<times> target_id) list"

text \<open>
  Modelled from the spec: the state after one command of the Incident Manager (section
  4.3, missing from the sources).
\<close>

fun step :: "command \<Rightarrow> instant \<Rightarrow> incident_manager \<Rightarrow> incident_manager" where
  "step (Create ttl descr sev targetId) now m = snd (create ttl descr sev targetId now m)"
| "step (CreateFromHealthTransition targetId fromStatus toStatus) now m =
     snd (createFromHealthTransition targetId fromStatus toStatus now m)"
| "step (AttachAnalysis iid txt) now m = snd (attachAnalysis iid txt m)"
| "step (Resolve iid) now m = snd (resolve iid now m)"
| "step (GenerateDemoIncidents batch) now m = snd (generateDemoIncidents batch now m)"

text \<open>
  Modelled from the spec: the state after a sequence of commands of the Incident Manager
  (section 4.3, missing from the sources).
\<close>

fun execute :: "(command \<times> instant) list \<Rightarrow> incident_manager \<Rightarrow> incident_manager" where
  "execute [] m = m"
| "execute ((c, now) # cs) m = execute cs (step c now m)"

text \<open>
  Modelled from the spec: repeated \<open>createFromHealthTransition\<close> calls for one target
  (section 8), each with its transition and its instant, nothing else in between.
\<close>

fun repeat_transitions ::
    "target_id \<Rightarrow> (health_status \<times> health_status \<times> instant) list \<Rightarrow> incident_manager
       \<Rightarrow> incident_manager" where
  "repeat_transitions targetId [] m = m"
| "repeat_transitions targetId ((fromStatus, toStatus, now) # calls) m =
     repeat_transitions targetId calls
       (snd (createFromHealthTransition targetId fromStatus toStatus now m))"

text \<open>
  Modelled from the spec: the invariant of section 3 on one incident, \<open>resolvedAt\<close> is set
  if and only if \<open>status == resolved\<close>.
\<close>

definition resolved_consistent :: "incident \<Rightarrow> bool" where
  "resolved_consistent i = ((resolvedAt i \<noteq> None) = (status i = Resolved))"

text \<open>
  Modelled from the spec: identifiers are unique and monotonic (section 3; the Incident
  Manager is missing from the sources): every incident has an identifier below the next
  one to be assigned.
\<close>

definition ids_fresh :: "incident_manager \<Rightarrow> bool" where
  "ids_fresh m = list_all (\<lambda>i. incident_id i < next_id m) (incidents m)"

text \<open>
  Modelled from the spec: what section 3 lets an operation do to an incident (the Incident
  Manager is missing from the sources): the incident keeps its id, an analysis that is
  set stays as it is, and a resolved incident stays resolved, at the same instant.
\<close>

definition keeps :: "incident \<Rightarrow> incident \<Rightarrow> bool" where
  "keeps i i' =
     (incident_id i' = incident_id i \<and>
      (aiAnalysis i \<noteq> None \<longrightarrow> aiAnalysis i' = aiAnalysis i) \<and>
      (status i = Resolved \<longrightarrow> status i' = Resolved \<and> resolvedAt i' = resolvedAt i))"

subsection \<open>SLA Calculator\<close>

text \<open>
  Modelled from the spec: the SLAReport of section 3 (the backend's data model is missing
  from the sources).
\<close>

record sla_report =
  availabilityPercentage :: rat
  uptimePercentage :: rat
  downtimeMinutes :: rat
  slaTarget :: rat
  mttrMinutes :: rat
  incidentCount :: nat
  lastUpdated :: instant

text \<open>
  Modelled from the spec: the contiguous runs of \<open>unhealthy\<close> readings of a health history
  (section 4.5, missing from the sources), each as the instants of its first and of its
  last reading. The history is in time order; the first argument is the run that is
  open at the reading before.
\<close>

fun unhealthy_runs ::
    "(instant \<times> instant) option \<Rightarrow> (instant \<times> health_status) list \<Rightarrow> (instant \<times> instant) list" where
  "unhealthy_runs cur [] = (case cur of None \<Rightarrow> [] | Some r \<Rightarrow> [r])"
| "unhealthy_runs cur ((t, st) # history) =
     (if st = Unhealthy
      then unhealthy_runs (Some (case cur of None \<Rightarrow> (t, t) | Some (a, b) \<Rightarrow> (a, t))) history
      else (case cur of
              None \<Rightarrow> unhealthy_runs None history
            | Some r \<Rightarrow> r # unhealthy_runs None history))"

text \<open>
  Modelled from the spec: \<open>downtimeMinutes\<close> of section 4.5 (missing from the sources),
  with the first of the two conventions the spec allows: the duration of a run is the
  time between its first and its last \<open>unhealthy\<close> sample.
\<close>

definition downtime :: "(instant \<times> health_status) list \<Rightarrow> rat" where
  "downtime history = sum_list (map (\<lambda>(a, b). b - a) (unhealthy_runs None history))"

text \<open>
  Modelled from the spec: the terms \<open>resolvedAt - createdAt\<close> of \<open>mttrMinutes\<close>, section 4.5
  (missing from the sources), one for every resolved incident.
\<close>

definition resolution_times :: "incident list \<Rightarrow> rat list" where
  "resolution_times is =
     concat (map (\<lambda>i. case resolvedAt i of
                         Some r \<Rightarrow> if status i = Resolved then [r - createdAt i] else []
                       | None \<Rightarrow> []) is)"

text \<open>
  Modelled from the spec: the mean of section 4.5 (missing from the sources) over the
  resolution times, 0 and not an error if there is none.
\<close>

definition mttr :: "incident list \<Rightarrow> rat" where
  "mttr is =
     (let ds = resolution_times is
      in if ds = [] then 0 else sum_list ds / of_nat (length ds))"

text \<open>
  Modelled from the spec: \<open>compute\<close> of section 4.5 (missing from the sources), a function
  of the length of the window, the health history and the incidents of the window. No
  exclusion policy is modelled, so the availability is the uptime.
\<close>

definition compute ::
    "rat \<Rightarrow> rat \<Rightarrow> instant \<Rightarrow> (instant \<times> health_status) list \<Rightarrow> incident list \<Rightarrow> sla_report" where
  "compute windowMinutes target now history is =
     (let down = downtime history;
          uptime = 100 * (windowMinutes - down) / windowMinutes
      in \<lparr>availabilityPercentage = uptime,
          uptimePercentage = uptime,
          downtimeMinutes = down,
          slaTarget = target,
          mttrMinutes = mttr is,
          incidentCount = length (filter (\<lambda>i. status i = Open) is),
          lastUpdated = now\<rparr>)"

section \<open>Properties of the sample application\<close>

lemma handle_requestCount_mono: "requestCount s \<le> requestCount (snd (handle rq s))"
  by (cases rq) (simp_all add: health_def users_def orders_def load_def metrics_def Let_def)

lemma handle_errorCount_mono: "errorCount s \<le> errorCount (snd (handle rq s))"
  by (cases rq) (simp_all add: health_def users_def orders_def load_def metrics_def Let_def)

lemma handle_responseTimeSum_mono:
  "clock_monotone rq \<Longrightarrow> responseTimeSum s \<le> responseTimeSum (snd (handle rq s))"
  by (cases rq) (simp_all add: health_def users_def orders_def load_def metrics_def Let_def)

lemma run_requestCount_mono: "requestCount s \<le> requestCount (run rqs s)"
proof (induction rqs arbitrary: s)
  case Nil
  show ?case by simp
next
  case (Cons rq rqs)
  have "requestCount s \<le> requestCount (snd (handle rq s))"
    by (rule handle_requestCount_mono)
  also have "\<dots> \<le> requestCount (run rqs (snd (handle rq s)))"
    by (rule Cons.IH)
  finally show ?case by simp
qed

lemma run_errorCount_mono: "errorCount s \<le> errorCount (run rqs s)"
proof (induction rqs arbitrary: s)
  case Nil
  show ?case by simp
next
  case (Cons rq rqs)
  have "errorCount s \<le> errorCount (snd (handle rq s))"
    by (rule handle_errorCount_mono)
  also have "\<dots> \<le> errorCount (run rqs (snd (handle rq s)))"
    by (rule Cons.IH)
  finally show ?case by simp
qed

lemma run_responseTimeSum_mono:
  "list_all clock_monotone rqs \<Longrightarrow> responseTimeSum s \<le> responseTimeSum (run rqs s)"
proof (induction rqs arbitrary: s)
  case Nil
  show ?case by simp
next
  case (Cons rq rqs)
  from Cons.prems have rq: "clock_monotone rq" and rest: "list_all clock_monotone rqs"
    by simp_all
  have "responseTimeSum s \<le> responseTimeSum (snd (handle rq s))"
    using rq by (rule handle_responseTimeSum_mono)
  also have "\<dots> \<le> responseTimeSum (run rqs (snd (handle rq s)))"
    using rest by (rule Cons.IH)
  finally show ?case by simp
qed

lemma run_requestCount_nonneg: "0 \<le> requestCount (run rqs initial_state)"
  using run_requestCount_mono [of initial_state rqs] by (simp add: initial_state_def)

lemma health_failure:
  "rnd < 1 / 10 \<Longrightarrow> handle (GetHealth rnd t0 t1) s = (Response 500 HealthFailure, s\<lparr>errorCount := errorCount s + 1\<rparr>)"
  by (simp add: health_def)

lemma orders_failure:
  "rnd < 15 / 100 \<Longrightarrow> handle (GetOrders rnd t0 t1) s = (Response 503 OrdersFailure, s\<lparr>errorCount := errorCount s + 1\<rparr>)"
  by (simp add: orders_def)

lemma error_status:
  "500 \<le> status_code (fst (handle rq s)) \<Longrightarrow>
     errorCount (snd (handle rq s)) = errorCount s + 1 \<and>
     requestCount (snd (handle rq s)) = requestCount s \<and>
     responseTimeSum (snd (handle rq s)) = responseTimeSum s"
  by (cases rq) (simp_all add: health_def users_def orders_def load_def metrics_def Let_def split: if_splits)

lemma two_errors_one_request: "run [GetHealth (1 / 2) 0 0, GetHealth 0 0 0, GetHealth 0 0 0] initial_state = \<lparr>requestCount = 1, errorCount = 2, responseTimeSum = 0\<rparr>"
  by (simp add: health_def initial_state_def Let_def)

lemma avg_finite: "\<exists>q. http_response_time_avg s = Num q"
  by (simp add: http_response_time_avg_def js_div_def)

lemma avg_reachable:
  "http_response_time_avg (run rqs initial_state) =
     (if requestCount (run rqs initial_state) = 0 then Num 0
      else Num (of_int (responseTimeSum (run rqs initial_state)) / of_int (requestCount (run rqs initial_state))))"
  using run_requestCount_nonneg [of rqs]
  by (auto simp add: http_response_time_avg_def js_div_def)

lemma handle_adds:
  "\<exists>dr de dt.
      (dr = 0 \<or> dr = 1) \<and> (de = 0 \<or> de = 1) \<and> (clock_monotone rq \<longrightarrow> 0 \<le> dt) \<and>
      (\<forall>s. requestCount (snd (handle rq s)) = requestCount s + dr \<and>
           errorCount (snd (handle rq s)) = errorCount s + de \<and>
           responseTimeSum (snd (handle rq s)) = responseTimeSum s + dt)"
proof (cases rq)
  case (GetHealth rnd startTime now)
  show ?thesis
  proof (cases "rnd < 1 / 10")
    case True
    have "\<forall>s. requestCount (snd (handle rq s)) = requestCount s + 0 \<and>
           errorCount (snd (handle rq s)) = errorCount s + 1 \<and>
           responseTimeSum (snd (handle rq s)) = responseTimeSum s + 0"
      using True by (simp add: GetHealth health_def)
    then show ?thesis by fastforce
  next
    case False
    have "\<forall>s. requestCount (snd (handle rq s)) = requestCount s + 1 \<and>
           errorCount (snd (handle rq s)) = errorCount s + 0 \<and>
           responseTimeSum (snd (handle rq s)) = responseTimeSum s + (now - startTime)"
      using False by (simp add: GetHealth health_def Let_def)
    moreover have "clock_monotone rq \<longrightarrow> 0 \<le> now - startTime"
      by (simp add: GetHealth)
    ultimately show ?thesis by fastforce
  qed
next
  case (GetUsers startTime now)
  have "\<forall>s. requestCount (snd (handle rq s)) = requestCount s + 1 \<and>
         errorCount (snd (handle rq s)) = errorCount s + 0 \<and>
         responseTimeSum (snd (handle rq s)) = responseTimeSum s + (now - startTime)"
    by (simp add: GetUsers users_def Let_def)
  moreover have "clock_monotone rq \<longrightarrow> 0 \<le> now - startTime"
    by (simp add: GetUsers)
  ultimately show ?thesis by fastforce
next
  case (GetOrders rnd startTime now)
  show ?thesis
  proof (cases "rnd < 15 / 100")
    case True
    have "\<forall>s. requestCount (snd (handle rq s)) = requestCount s + 0 \<and>
           errorCount (snd (handle rq s)) = errorCount s + 1 \<and>
           responseTimeSum (snd (handle rq s)) = responseTimeSum s + 0"
      using True by (simp add: GetOrders orders_def)
    then show ?thesis by fastforce
  next
    case False
    have "\<forall>s. requestCount (snd (handle rq s)) = requestCount s + 1 \<and>
           errorCount (snd (handle rq s)) = errorCount s + 0 \<and>
           responseTimeSum (snd (handle rq s)) = responseTimeSum s + (now - startTime)"
      using False by (simp add: GetOrders orders_def Let_def)
    moreover have "clock_monotone rq \<longrightarrow> 0 \<le> now - startTime"
      by (simp add: GetOrders)
    ultimately show ?thesis by fastforce
  qed
next
  case (PostLoad body_intensity)
  have "\<forall>s. requestCount (snd (handle rq s)) = requestCount s + 1 \<and>
         errorCount (snd (handle rq s)) = errorCount s + 0 \<and>
         responseTimeSum (snd (handle rq s)) = responseTimeSum s + 0"
    by (simp add: PostLoad load_def Let_def)
  then show ?thesis by fastforce
next
  case (GetMetrics uptime)
  have "\<forall>s. requestCount (snd (handle rq s)) = requestCount s + 0 \<and>
         errorCount (snd (handle rq s)) = errorCount s + 0 \<and>
         responseTimeSum (snd (handle rq s)) = responseTimeSum s + 0"
    by (simp add: GetMetrics metrics_def)
  then show ?thesis by fastforce
qed

subsection \<open>C6: the counters across handled requests\<close>

text \<open>
  Counterexample to C6 as stated (no handler ever decreases any of the three counters):
  \<open>responseTimeSum\<close> grows by \<open>Date.now() - startTime\<close>, a difference of two readings of
  the wall clock. A successful \<open>GET /health\<close> whose second reading (990) is below its
  first (1000), as after a clock adjustment, takes \<open>responseTimeSum\<close> from 0 to -10.
\<close>

theorem responseTimeSum_decreases_counterexample:
  "responseTimeSum (snd (handle (GetHealth (1 / 2) 1000 990) initial_state))
     < responseTimeSum initial_state"
  by (simp add: health_def initial_state_def Let_def)

text \<open>
  C6, amended: across every sequence of handled requests of a process lifetime,
  \<open>requestCount\<close> and \<open>errorCount\<close> never decrease, and \<open>responseTimeSum\<close> never decreases
  as long as the wall clock does not step back between the two \<open>Date.now()\<close> readings of
  a request. No handler resets a counter: whatever the counters hold, a handler only
  adds to each of them an amount that the request fixes, 0 or 1 for \<open>requestCount\<close> and
  for \<open>errorCount\<close>, and for \<open>responseTimeSum\<close> an amount that is not negative unless the
  clock stepped back.
\<close>

theorem counters_non_decreasing:
  "requestCount s \<le> requestCount (run rqs s) \<and>
   errorCount s \<le> errorCount (run rqs s) \<and>
   (list_all clock_monotone rqs \<longrightarrow> responseTimeSum s \<le> responseTimeSum (run rqs s)) \<and>
   (\<exists>dr de dt.
      (dr = 0 \<or> dr = 1) \<and> (de = 0 \<or> de = 1) \<and> (clock_monotone rq \<longrightarrow> 0 \<le> dt) \<and>
      (\<forall>s'. requestCount (snd (handle rq s')) = requestCount s' + dr \<and>
            errorCount (snd (handle rq s')) = errorCount s' + de \<and>
            responseTimeSum (snd (handle rq s')) = responseTimeSum s' + dt))"
  using run_requestCount_mono [of s rqs] run_errorCount_mono [of s rqs]
    run_responseTimeSum_mono [of rqs s] handle_adds [of rq]
  by blast

theorem counters_non_decreasing_witness:
  "list_all clock_monotone
     [GetHealth (1 / 2) 1000 1004, GetHealth 0 1010 1010, GetOrders (9 / 10) 1300 1450,
      PostLoad (Some ''high'')] \<and>
   requestCount initial_state
     \<le> requestCount (run [GetHealth (1 / 2) 1000 1004, GetHealth 0 1010 1010,
                            GetOrders (9 / 10) 1300 1450, PostLoad (Some ''high'')] initial_state) \<and>
   errorCount initial_state
     \<le> errorCount (run [GetHealth (1 / 2) 1000 1004, GetHealth 0 1010 1010,
                          GetOrders (9 / 10) 1300 1450, PostLoad (Some ''high'')] initial_state) \<and>
   responseTimeSum initial_state
     \<le> responseTimeSum (run [GetHealth (1 / 2) 1000 1004, GetHealth 0 1010 1010,
                               GetOrders (9 / 10) 1300 1450, PostLoad (Some ''high'')] initial_state) \<and>
   clock_monotone (GetOrders (9 / 10) 1300 1450) \<and>
   (\<exists>dr de dt.
      (dr = 0 \<or> dr = 1) \<and> (de = 0 \<or> de = 1) \<and> 0 \<le> dt \<and>
      (\<forall>s'. requestCount (snd (handle (GetOrders (9 / 10) 1300 1450) s')) = requestCount s' + dr \<and>
            errorCount (snd (handle (GetOrders (9 / 10) 1300 1450) s')) = errorCount s' + de \<and>
            responseTimeSum (snd (handle (GetOrders (9 / 10) 1300 1450) s'))
              = responseTimeSum s' + dt))"
proof -
  have mono: "list_all clock_monotone
     [GetHealth (1 / 2) 1000 1004, GetHealth 0 1010 1010, GetOrders (9 / 10) 1300 1450,
      PostLoad (Some ''high'')]"
    by simp
  have one: "clock_monotone (GetOrders (9 / 10) 1300 1450)"
    by simp
  show ?thesis
    using mono one
      counters_non_decreasing [of initial_state
        "[GetHealth (1 / 2) 1000 1004, GetHealth 0 1010 1010, GetOrders (9 / 10) 1300 1450,
          PostLoad (Some ''high'')]" "GetOrders (9 / 10) 1300 1450"]
    by blast
qed

subsection \<open>C9: error responses\<close>

text \<open>
  C9: the simulated failure branch of \<open>/health\<close> (status 500) and the failure branch of
  \<open>/api/orders\<close> (status 503) add 1 to \<open>errorCount\<close> and leave \<open>requestCount\<close> as it is, and
  so does every response of a handler with an error status. So there are executions
  from the initial state after which \<open>errorCount\<close> exceeds \<open>requestCount\<close> and the quotient
  \<open>errorCount / requestCount\<close> is above 1, an error rate above 100%.
\<close>

theorem error_responses_count_errors_only:
  "(rnd < 1 / 10 \<longrightarrow>
      status_code (fst (handle (GetHealth rnd t0 t1) s)) = 500 \<and>
      errorCount (snd (handle (GetHealth rnd t0 t1) s)) = errorCount s + 1 \<and>
      requestCount (snd (handle (GetHealth rnd t0 t1) s)) = requestCount s) \<and>
   (rnd < 15 / 100 \<longrightarrow>
      status_code (fst (handle (GetOrders rnd t0 t1) s)) = 503 \<and>
      errorCount (snd (handle (GetOrders rnd t0 t1) s)) = errorCount s + 1 \<and>
      requestCount (snd (handle (GetOrders rnd t0 t1) s)) = requestCount s) \<and>
   (500 \<le> status_code (fst (handle rq s)) \<longrightarrow>
      errorCount (snd (handle rq s)) = errorCount s + 1 \<and>
      requestCount (snd (handle rq s)) = requestCount s) \<and>
   (\<exists>rqs q. requestCount (run rqs initial_state) < errorCount (run rqs initial_state) \<and>
      js_div (errorCount (run rqs initial_state)) (requestCount (run rqs initial_state)) = Num q \<and>
      1 < q)"
proof -
  have h: "rnd < 1 / 10 \<longrightarrow>
      status_code (fst (handle (GetHealth rnd t0 t1) s)) = 500 \<and>
      errorCount (snd (handle (GetHealth rnd t0 t1) s)) = errorCount s + 1 \<and>
      requestCount (snd (handle (GetHealth rnd t0 t1) s)) = requestCount s"
    using health_failure [of rnd t0 t1 s] by auto
  have o: "rnd < 15 / 100 \<longrightarrow>
      status_code (fst (handle (GetOrders rnd t0 t1) s)) = 503 \<and>
      errorCount (snd (handle (GetOrders rnd t0 t1) s)) = errorCount s + 1 \<and>
      requestCount (snd (handle (GetOrders rnd t0 t1) s)) = requestCount s"
    using orders_failure [of rnd t0 t1 s] by auto
  have e: "500 \<le> status_code (fst (handle rq s)) \<longrightarrow>
      errorCount (snd (handle rq s)) = errorCount s + 1 \<and>
      requestCount (snd (handle rq s)) = requestCount s"
    using error_status [of rq s] by blast
  let ?rqs = "[GetHealth (1 / 2) 0 0, GetHealth 0 0 0, GetHealth 0 0 0]"
  have "requestCount (run ?rqs initial_state) < errorCount (run ?rqs initial_state) \<and>
      js_div (errorCount (run ?rqs initial_state)) (requestCount (run ?rqs initial_state)) = Num 2 \<and>
      (1::rat) < 2"
    unfolding two_errors_one_request by (simp add: js_div_def)
  then have x: "\<exists>rqs q. requestCount (run rqs initial_state) < errorCount (run rqs initial_state) \<and>
      js_div (errorCount (run rqs initial_state)) (requestCount (run rqs initial_state)) = Num q \<and>
      1 < q"
    by blast
  from h o e x show ?thesis by blast
qed

theorem error_responses_count_errors_only_witness:
  "(0 :: rat) < 1 / 10 \<and>
   status_code (fst (handle (GetHealth 0 5 5) initial_state)) = 500 \<and>
   errorCount (snd (handle (GetHealth 0 5 5) initial_state)) = errorCount initial_state + 1 \<and>
   requestCount (snd (handle (GetHealth 0 5 5) initial_state)) = requestCount initial_state \<and>
   (0 :: rat) < 15 / 100 \<and>
   status_code (fst (handle (GetOrders 0 5 5) initial_state)) = 503 \<and>
   errorCount (snd (handle (GetOrders 0 5 5) initial_state)) = errorCount initial_state + 1 \<and>
   requestCount (snd (handle (GetOrders 0 5 5) initial_state)) = requestCount initial_state"
proof -
  have a: "(0 :: rat) < 1 / 10" and b: "(0 :: rat) < 15 / 100" by simp_all
  show ?thesis
    using a b error_responses_count_errors_only [of 0 5 5 initial_state "GetMetrics 0"]
    by blast
qed

subsection \<open>C10: the average of \<open>/metrics\<close>\<close>

text \<open>
  C10: the line \<open>http_response_time_avg\<close> of \<open>GET /metrics\<close> interpolates a value that is
  never the result of a division by zero (it is a finite number in every state), and in
  every state that the application reaches it is 0 when \<open>requestCount\<close> is 0 and the
  quotient \<open>responseTimeSum / requestCount\<close> otherwise.
\<close>

theorem metrics_average_never_divides_by_zero:
  "metrics_array uptime s ! 10
     = [Lit ''http_response_time_avg '', Interp (http_response_time_avg s)] \<and>
   (\<exists>q. http_response_time_avg s = Num q) \<and>
   http_response_time_avg (run rqs initial_state) =
     (if requestCount (run rqs initial_state) = 0 then Num 0
      else Num (of_int (responseTimeSum (run rqs initial_state))
                / of_int (requestCount (run rqs initial_state))))"
proof -
  have "metrics_array uptime s ! 10
     = [Lit ''http_response_time_avg '', Interp (http_response_time_avg s)]"
    by (simp add: metrics_array_def)
  then show ?thesis using avg_finite [of s] avg_reachable [of rqs] by blast
qed

theorem metrics_average_never_divides_by_zero_witness:
  "http_response_time_avg initial_state = Num 0 \<and>
   http_response_time_avg (run [GetHealth (1 / 2) 0 30, GetUsers 40 100] initial_state) = Num 45"
proof -
  have r: "run [GetHealth (1 / 2) 0 30, GetUsers 40 100] initial_state
           = \<lparr>requestCount = 2, errorCount = 0, responseTimeSum = 90\<rparr>"
    by (simp add: health_def users_def initial_state_def Let_def)
  have "http_response_time_avg (run [] initial_state) =
     (if requestCount (run [] initial_state) = 0 then Num 0
      else Num (of_int (responseTimeSum (run [] initial_state))
                / of_int (requestCount (run [] initial_state))))"
    using metrics_average_never_divides_by_zero [of 0 initial_state "[]"] by blast
  then have a: "http_response_time_avg initial_state = Num 0"
    by (simp add: initial_state_def)
  have "http_response_time_avg (run [GetHealth (1 / 2) 0 30, GetUsers 40 100] initial_state) =
     (if requestCount (run [GetHealth (1 / 2) 0 30, GetUsers 40 100] initial_state) = 0 then Num 0
      else Num (of_int (responseTimeSum (run [GetHealth (1 / 2) 0 30, GetUsers 40 100] initial_state))
                / of_int (requestCount (run [GetHealth (1 / 2) 0 30, GetUsers 40 100] initial_state))))"
    using metrics_average_never_divides_by_zero
        [of 0 initial_state "[GetHealth (1 / 2) 0 30, GetUsers 40 100]"] by blast
  then have b: "http_response_time_avg (run [GetHealth (1 / 2) 0 30, GetUsers 40 100] initial_state)
       = Num 45"
    unfolding r by simp
  from a b show ?thesis by blast
qed

lemma split_on_nonempty: "split_on c xs \<noteq> []"
  by (induction xs) (auto split: list.splits)

lemma split_on_no_sep: "c \<notin> set l \<Longrightarrow> split_on c l = [l]"
  by (induction l) auto

lemma split_on_append: "c \<notin> set l \<Longrightarrow> split_on c (l @ c # rest) = l # split_on c rest"
  by (induction l) (auto split: list.splits simp: split_on_nonempty)

lemma split_on_join:
  "\<forall>l \<in> set (l0 # ls). c \<notin> set l \<Longrightarrow> split_on c (join [c] (l0 # ls)) = l0 # ls"
proof (induction ls arbitrary: l0)
  case Nil
  then show ?case by (simp add: split_on_no_sep)
next
  case (Cons l1 ls)
  from Cons.prems have l0: "c \<notin> set l0" and rest: "\<forall>l \<in> set (l1 # ls). c \<notin> set l"
    by simp_all
  have "split_on c (join [c] (l0 # l1 # ls)) = l0 # split_on c (join [c] (l1 # ls))"
    using l0 by (simp add: split_on_append)
  with Cons.IH [OF rest] show ?case by simp
qed

lemma rendered_metrics:
  "map (render_template toString) (metrics_array uptime s) =
     [ ''# HELP http_requests_total Total number of HTTP requests'',
       ''# TYPE http_requests_total counter'',
       ''http_requests_total '' @ toString (Num (of_int (requestCount s))),
       '''',
       ''# HELP http_errors_total Total number of HTTP errors'',
       ''# TYPE http_errors_total counter'',
       ''http_errors_total '' @ toString (Num (of_int (errorCount s))),
       '''',
       ''# HELP http_response_time_avg Average HTTP response time'',
       ''# TYPE http_response_time_avg gauge'',
       ''http_response_time_avg '' @
          toString (http_response_time_avg s),
       '''',
       ''# HELP app_uptime Application uptime in seconds'',
       ''# TYPE app_uptime gauge'',
       ''app_uptime '' @ toString (Num (of_int (js_floor uptime))) ]"
  by (simp add: metrics_array_def render_template_def)

lemma rendered_newline_free:
  assumes "\<forall>n. newline \<notin> set (toString n)"
  shows "\<forall>l \<in> set (map (render_template toString) (metrics_array uptime s)). newline \<notin> set l"
  unfolding rendered_metrics using assms by (simp add: newline_def)

lemma rendered_nonempty:
  "map (render_template toString) (metrics_array uptime s) =
     hd (map (render_template toString) (metrics_array uptime s)) #
     tl (map (render_template toString) (metrics_array uptime s))"
  by (simp add: metrics_array_def)

lemma split_rendered:
  assumes "\<forall>n. newline \<notin> set (toString n)"
  shows "split_on newline (join [newline] (map (render_template toString) (metrics_array uptime s)))
         = map (render_template toString) (metrics_array uptime s)"
proof -
  let ?ls = "map (render_template toString) (metrics_array uptime s)"
  have "\<forall>l \<in> set (hd ?ls # tl ?ls). newline \<notin> set l"
    using rendered_newline_free [OF assms, of uptime s] rendered_nonempty [of toString uptime s]
    by simp
  then have "split_on newline (join [newline] (hd ?ls # tl ?ls)) = hd ?ls # tl ?ls"
    by (rule split_on_join)
  then show ?thesis using rendered_nonempty [of toString uptime s] by simp
qed

lemma samples_rendered:
  "map parse_sample (filter is_sample (map (render_template toString) (metrics_array uptime s))) =
       [(''http_requests_total'', toString (Num (of_int (requestCount s)))),
        (''http_errors_total'', toString (Num (of_int (errorCount s)))),
        (''http_response_time_avg'',
           toString (http_response_time_avg s)),
        (''app_uptime'', toString (Num (of_int (js_floor uptime))))]"
  unfolding rendered_metrics by (simp add: is_sample_def parse_sample_def)

lemma digit_not_newline: "k < 10 \<Longrightarrow> ''0123456789'' ! k \<noteq> newline"
proof -
  assume "k < 10"
  then have "k \<in> {0,1,2,3,4,5,6,7,8,9}" by auto
  then show "''0123456789'' ! k \<noteq> newline" by (auto simp: newline_def)
qed

lemma digits_newline_free: "newline \<notin> set (digits n)"
proof (induction n rule: digits.induct)
  case (1 n)
  show ?case
  proof (cases "n < 10")
    case True
    then show ?thesis using digit_not_newline [of n] by (subst digits.simps) auto
  next
    case False
    have "n mod 10 < 10" by simp
    then show ?thesis using False 1 digit_not_newline [of "n mod 10"] by (subst digits.simps) auto
  qed
qed

lemma integral_toString_newline_free: "newline \<notin> set (integral_toString x)"
proof (cases x)
  case (Num q)
  then show ?thesis using digits_newline_free by (simp add: integer_string_def newline_def)
qed (simp_all add: newline_def)

subsection \<open>C7: the exposition format of \<open>/metrics\<close>\<close>

text \<open>
  C7: whatever the conversion of numbers to text, as long as it writes no newline,
  \<open>GET /metrics\<close> answers (status 200, state unchanged) with a text whose lines, apart
  from blank lines and \<open>#\<close> comment lines, are exactly four \<open>key value\<close> lines, in this
  order: \<open>http_requests_total\<close> with the current \<open>requestCount\<close>, \<open>http_errors_total\<close> with
  the current \<open>errorCount\<close>, \<open>http_response_time_avg\<close> with the quotient of the current
  \<open>responseTimeSum\<close> by the current \<open>requestCount\<close> (0 when no request is counted), and
  \<open>app_uptime\<close> with the whole seconds of the uptime.
\<close>

theorem metrics_exposition:
  assumes nl: "\<forall>n. newline \<notin> set (toString n)"
  shows "\<exists>answer.
     handle (GetMetrics uptime) s = (Response 200 (MetricsText (metrics_array uptime s)), s) \<and>
     response_text toString (fst (handle (GetMetrics uptime) s)) = Some answer \<and>
     samples answer =
       [(''http_requests_total'', toString (Num (of_int (requestCount s)))),
        (''http_errors_total'', toString (Num (of_int (errorCount s)))),
        (''http_response_time_avg'',
           toString (if requestCount s > 0
                     then Num (of_int (responseTimeSum s) / of_int (requestCount s))
                     else Num 0)),
        (''app_uptime'', toString (Num (of_int \<lfloor>uptime\<rfloor>)))]"
proof -
  let ?answer = "join [newline] (map (render_template toString) (metrics_array uptime s))"
  have avg: "http_response_time_avg s =
      (if requestCount s > 0
       then Num (of_int (responseTimeSum s) / of_int (requestCount s))
       else Num 0)"
    by (simp add: http_response_time_avg_def js_div_def)
  have "response_text toString (fst (handle (GetMetrics uptime) s)) = Some ?answer"
    by (simp add: metrics_def response_text_def)
  moreover have "samples ?answer =
       [(''http_requests_total'', toString (Num (of_int (requestCount s)))),
        (''http_errors_total'', toString (Num (of_int (errorCount s)))),
        (''http_response_time_avg'',
           toString (if requestCount s > 0
                     then Num (of_int (responseTimeSum s) / of_int (requestCount s))
                     else Num 0)),
        (''app_uptime'', toString (Num (of_int \<lfloor>uptime\<rfloor>)))]"
    unfolding samples_def split_rendered [OF nl] samples_rendered avg js_floor_def ..
  moreover have "handle (GetMetrics uptime) s
      = (Response 200 (MetricsText (metrics_array uptime s)), s)"
    by (simp add: metrics_def)
  ultimately show ?thesis by blast
qed

theorem metrics_exposition_witness:
  "\<exists>answer.
     response_text integral_toString
       (fst (handle (GetMetrics (7 / 2))
          \<lparr>requestCount = 2, errorCount = 1, responseTimeSum = 90\<rparr>)) = Some answer \<and>
     samples answer =
       [(''http_requests_total'', ''2''), (''http_errors_total'', ''1''),
        (''http_response_time_avg'', ''45''), (''app_uptime'', ''3'')]"
proof -
  let ?s = "\<lparr>requestCount = 2, errorCount = 1, responseTimeSum = 90\<rparr>"
  have nl: "\<forall>n. newline \<notin> set (integral_toString n)"
    by (simp add: integral_toString_newline_free)
  from metrics_exposition [OF nl, of "7 / 2" ?s]
  obtain answer where a: "response_text integral_toString (fst (handle (GetMetrics (7 / 2)) ?s)) = Some answer"
    and b: "samples answer =
       [(''http_requests_total'', integral_toString (Num (of_int (requestCount ?s)))),
        (''http_errors_total'', integral_toString (Num (of_int (errorCount ?s)))),
        (''http_response_time_avg'',
           integral_toString (if requestCount ?s > 0
                     then Num (of_int (responseTimeSum ?s) / of_int (requestCount ?s))
                     else Num 0)),
        (''app_uptime'', integral_toString (Num (of_int \<lfloor>7 / 2 :: rat\<rfloor>)))]"
    by blast
  have v1: "integral_toString (Num (of_int (requestCount ?s))) = ''2''"
    by (simp add: js_floor_def integer_string_def)
  have v2: "integral_toString (Num (of_int (errorCount ?s))) = ''1''"
    by (simp add: js_floor_def integer_string_def)
  have v3: "integral_toString (if requestCount ?s > 0
                     then Num (of_int (responseTimeSum ?s) / of_int (requestCount ?s))
                     else Num 0) = ''45''"
    by (simp add: js_floor_def integer_string_def)
  have whole: "\<lfloor>7 / 2 :: rat\<rfloor> = 3"
    by (simp add: floor_eq_iff)
  have v4: "integral_toString (Num (of_int \<lfloor>7 / 2 :: rat\<rfloor>)) = ''3''"
    unfolding whole by (simp add: js_floor_def integer_string_def)
  from a b show ?thesis unfolding v1 v2 v3 v4 by blast
qed

section \<open>Properties of the SLA panel\<close>

text \<open>
  C8: for every SLA report that the panel is given, the compliance indicator reads
  \<open>COMPLIANT\<close> exactly when \<open>availability_percentage >= sla_target\<close>, and \<open>NON-COMPLIANT\<close>
  exactly when not.
\<close>

theorem sla_compliance_flag:
  "\<exists>p. SLAMetrics (Some d) = SLAPanel p \<and>
     (compliance_text p = ''COMPLIANT'') = (availability_percentage d \<ge> sla_target d) \<and>
     (compliance_text p = ''NON-COMPLIANT'') = (\<not> availability_percentage d \<ge> sla_target d)"
  by (simp add: SLAMetrics_def)

theorem sla_compliance_flag_witness:
  "(\<exists>p. SLAMetrics (Some \<lparr>availability_percentage = 9995 / 100, uptime_percentage = 9995 / 100,
            downtime_minutes = 21, sla_target = 999 / 10, mttr_minutes = 15,
            incident_count = 1, last_updated = ''2024-01-01T00:00:00''\<rparr>) = SLAPanel p \<and>
        compliance_text p = ''COMPLIANT'') \<and>
   (\<exists>p. SLAMetrics (Some \<lparr>availability_percentage = 995 / 10, uptime_percentage = 995 / 10,
            downtime_minutes = 216, sla_target = 999 / 10, mttr_minutes = 15,
            incident_count = 1, last_updated = ''2024-01-01T00:00:00''\<rparr>) = SLAPanel p \<and>
        compliance_text p = ''NON-COMPLIANT'')"
  using
    sla_compliance_flag [of "\<lparr>availability_percentage = 9995 / 100, uptime_percentage = 9995 / 100,
            downtime_minutes = 21, sla_target = 999 / 10, mttr_minutes = 15,
            incident_count = 1, last_updated = ''2024-01-01T00:00:00''\<rparr>"]
    sla_compliance_flag [of "\<lparr>availability_percentage = 995 / 10, uptime_percentage = 995 / 10,
            downtime_minutes = 216, sla_target = 999 / 10, mttr_minutes = 15,
            incident_count = 1, last_updated = ''2024-01-01T00:00:00''\<rparr>"]
  by auto

section \<open>Properties of the backend model\<close>

lemma classify_facts:
  "classify th failed None = Unknown"
  "unhealthyErrorRate th \<le> errorRate sn \<Longrightarrow> classify th failed (Some sn) = Unhealthy"
  by (simp_all add: classify_def)

lemma latest_empty: "latest t (\<lambda>_. []) = None"
  by (simp add: latest_def)

subsection \<open>C5: the health classification\<close>

text \<open>
  C5: for every target, \<open>evaluate\<close> returns \<open>unknown\<close> when the store has no snapshot of
  the target (as in the empty store); and when the latest snapshot has an error rate at
  or above the \<open>unhealthy\<close> threshold, the result is \<open>unhealthy\<close>, hence not \<open>degraded\<close>,
  whatever the latency of the snapshot.
\<close>

theorem health_classification_order:
  "(latest targetId store = None \<longrightarrow>
      healthStatus (evaluate th store failed now targetId) = Unknown) \<and>
   healthStatus (evaluate th (\<lambda>_. []) failed now targetId) = Unknown \<and>
   (latest targetId store = Some sn \<and> unhealthyErrorRate th \<le> errorRate sn \<longrightarrow>
      healthStatus (evaluate th store failed now targetId) = Unhealthy \<and>
      healthStatus (evaluate th store failed now targetId) \<noteq> Degraded) \<and>
   (unhealthyErrorRate th \<le> errorRate sn \<longrightarrow>
      classify th failed (Some (sn\<lparr>responseTimeAvgMs := latency\<rparr>)) = Unhealthy)"
proof -
  have a: "latest targetId store = None \<longrightarrow>
      healthStatus (evaluate th store failed now targetId) = Unknown"
    by (simp add: evaluate_def classify_facts)
  have b: "healthStatus (evaluate th (\<lambda>_. []) failed now targetId) = Unknown"
    by (simp add: evaluate_def latest_empty classify_facts)
  have c: "latest targetId store = Some sn \<and> unhealthyErrorRate th \<le> errorRate sn \<longrightarrow>
      healthStatus (evaluate th store failed now targetId) = Unhealthy \<and>
      healthStatus (evaluate th store failed now targetId) \<noteq> Degraded"
    by (simp add: evaluate_def classify_facts)
  have "errorRate (sn\<lparr>responseTimeAvgMs := latency\<rparr>) = errorRate sn"
    by (simp add: errorRate_def)
  then have d: "unhealthyErrorRate th \<le> errorRate sn \<longrightarrow>
      classify th failed (Some (sn\<lparr>responseTimeAvgMs := latency\<rparr>)) = Unhealthy"
    by (simp add: classify_facts)
  from a b c d show ?thesis by blast
qed

theorem health_classification_order_witness:
  "latest ''other''
     (record_snapshot 100 ''svc''
        \<lparr>requestCount_snapshot = 100, errorCount_snapshot = 20, responseTimeAvgMs = 5,
         timestamp = 0\<rparr> (\<lambda>_. [])) = None \<and>
   healthStatus
     (evaluate \<lparr>unhealthyErrorRate = 1 / 10, degradedErrorRate = 1 / 100,
                latencyThresholdMs = 500\<rparr>
        (record_snapshot 100 ''svc''
           \<lparr>requestCount_snapshot = 100, errorCount_snapshot = 20, responseTimeAvgMs = 5,
            timestamp = 0\<rparr> (\<lambda>_. []))
        False 1 ''other'') = Unknown \<and>
   latest ''svc''
     (record_snapshot 100 ''svc''
        \<lparr>requestCount_snapshot = 100, errorCount_snapshot = 20, responseTimeAvgMs = 5,
         timestamp = 0\<rparr> (\<lambda>_. []))
     = Some \<lparr>requestCount_snapshot = 100, errorCount_snapshot = 20, responseTimeAvgMs = 5,
             timestamp = 0\<rparr> \<and>
   (1 / 10 :: rat)
     \<le> errorRate \<lparr>requestCount_snapshot = 100, errorCount_snapshot = 20,
                   responseTimeAvgMs = 5, timestamp = 0\<rparr> \<and>
   healthStatus
     (evaluate \<lparr>unhealthyErrorRate = 1 / 10, degradedErrorRate = 1 / 100,
                latencyThresholdMs = 500\<rparr>
        (record_snapshot 100 ''svc''
           \<lparr>requestCount_snapshot = 100, errorCount_snapshot = 20, responseTimeAvgMs = 5,
            timestamp = 0\<rparr> (\<lambda>_. []))
        False 1 ''svc'') = Unhealthy"
proof -
  let ?sn = "\<lparr>requestCount_snapshot = 100, errorCount_snapshot = 20, responseTimeAvgMs = 5,
              timestamp = 0 :: rat\<rparr>"
  let ?th = "\<lparr>unhealthyErrorRate = 1 / 10, degradedErrorRate = 1 / 100,
              latencyThresholdMs = 500\<rparr>"
  let ?store = "record_snapshot 100 ''svc'' ?sn (\<lambda>_. [])"
  have none: "latest ''other'' ?store = None"
    by (simp add: latest_def record_snapshot_def)
  have some: "latest ''svc'' ?store = Some ?sn"
    by (simp add: latest_def record_snapshot_def Let_def)
  have rate: "unhealthyErrorRate ?th \<le> errorRate ?sn"
    by (simp add: errorRate_def)
  have u: "healthStatus (evaluate ?th ?store False 1 ''other'') = Unknown"
    using none health_classification_order [of "''other''" ?store ?th False 1] by blast
  have v: "healthStatus (evaluate ?th ?store False 1 ''svc'') = Unhealthy"
    using some rate health_classification_order [of "''svc''" ?store ?th False 1 ?sn] by blast
  from none some rate u v show ?thesis by simp
qed

lemma dedup_noop:
  "open_incidents t m \<noteq> [] \<Longrightarrow> createFromHealthTransition t f to now m = (None, m)"
  by (simp add: createFromHealthTransition_def)

lemma repeat_noop: "open_incidents t m \<noteq> [] \<Longrightarrow> repeat_transitions t calls m = m"
proof (induction calls)
  case Nil
  show ?case by simp
next
  case (Cons c calls)
  obtain f to now where c: "c = (f, to, now)" by (cases c)
  from Cons show ?case by (simp add: c dedup_noop)
qed

lemma open_incidents_create:
  "open_incidents t (snd (create ttl d sev t now m)) = fst (create ttl d sev t now m) # open_incidents t m"
  by (simp add: create_def open_incidents_def Let_def)

lemma first_transition:
  assumes "open_incidents t m = []" and "is_degradation f to"
  shows "length (open_incidents t (snd (createFromHealthTransition t f to now m))) = 1"
proof -
  have "snd (createFromHealthTransition t f to now m) =
        snd (create ''Health degradation'' ''Reported by the Health Evaluator''
               (if to = Unhealthy then High else Medium) t now m)"
    using assms by (simp add: createFromHealthTransition_def split: prod.splits)
  then show ?thesis using assms(1) by (simp add: open_incidents_create)
qed

lemma repeat_from_none:
  assumes "open_incidents t m = []" and "calls \<noteq> []"
    and "list_all (\<lambda>(f, to, now). is_degradation f to) calls"
  shows "length (open_incidents t (repeat_transitions t calls m)) = 1"
proof -
  from assms(2) obtain c rest where calls: "calls = c # rest" by (cases calls) auto
  obtain f to now where c: "c = (f, to, now)" by (cases c)
  from assms(3) have deg: "is_degradation f to" by (simp add: calls c)
  let ?m1 = "snd (createFromHealthTransition t f to now m)"
  have one: "length (open_incidents t ?m1) = 1"
    using assms(1) deg by (rule first_transition)
  then have "open_incidents t ?m1 \<noteq> []" by auto
  then have "repeat_transitions t rest ?m1 = ?m1" by (rule repeat_noop)
  then show ?thesis using one by (simp add: calls c)
qed

subsection \<open>C1: deduplication of incidents from health transitions\<close>

text \<open>
  Counterexample to C1 as stated (exactly one open incident after the calls whenever an
  open incident for the target exists): \<open>create\<close> always succeeds and demo generation
  bypasses the deduplication, so two incidents can be open for one target. Repeated
  \<open>createFromHealthTransition\<close> calls for that target then create nothing, and two
  incidents are open after them, not one.
\<close>

theorem dedup_exactly_one_counterexample:
  "open_incidents ''svc''
     (execute [(Create ''Latency'' ''Slow responses'' Medium ''svc'', 1),
               (Create ''Errors'' ''Failing requests'' High ''svc'', 2)] initial_manager) \<noteq> [] \<and>
   length (open_incidents ''svc''
     (repeat_transitions ''svc'' [(Healthy, Unhealthy, 3), (Healthy, Unhealthy, 4)]
        (execute [(Create ''Latency'' ''Slow responses'' Medium ''svc'', 1),
                  (Create ''Errors'' ''Failing requests'' High ''svc'', 2)] initial_manager))) = 2"
  by (simp add: create_def initial_manager_def open_incidents_def
        createFromHealthTransition_def is_degradation_def Let_def)

text \<open>
  C1, amended: for every target, any number of repeated \<open>createFromHealthTransition\<close>
  calls for the same \<open>sourceTargetId\<close> while an open incident for that target exists and
  no resolution intervenes creates no new incident and changes nothing: the open
  incidents of the target after the calls are those before, so exactly one is open if
  exactly one was open. Starting without an open incident for the target, one or more
  calls that report a degradation leave exactly one open incident.
\<close>

theorem dedup_idempotent:
  "(open_incidents targetId m \<noteq> [] \<longrightarrow> repeat_transitions targetId calls m = m) \<and>
   (length (open_incidents targetId m) = 1 \<longrightarrow>
      length (open_incidents targetId (repeat_transitions targetId calls m)) = 1) \<and>
   (open_incidents targetId m = [] \<and> calls \<noteq> [] \<and>
    list_all (\<lambda>(fromStatus, toStatus, now). is_degradation fromStatus toStatus) calls \<longrightarrow>
      length (open_incidents targetId (repeat_transitions targetId calls m)) = 1)"
proof -
  have a: "open_incidents targetId m \<noteq> [] \<longrightarrow> repeat_transitions targetId calls m = m"
    using repeat_noop [of targetId m calls] by blast
  have b: "length (open_incidents targetId m) = 1 \<longrightarrow>
      length (open_incidents targetId (repeat_transitions targetId calls m)) = 1"
  proof
    assume one: "length (open_incidents targetId m) = 1"
    then have "open_incidents targetId m \<noteq> []" by auto
    then have "repeat_transitions targetId calls m = m" by (rule repeat_noop)
    with one show "length (open_incidents targetId (repeat_transitions targetId calls m)) = 1"
      by simp
  qed
  have c: "open_incidents targetId m = [] \<and> calls \<noteq> [] \<and>
    list_all (\<lambda>(fromStatus, toStatus, now). is_degradation fromStatus toStatus) calls \<longrightarrow>
      length (open_incidents targetId (repeat_transitions targetId calls m)) = 1"
    using repeat_from_none [of targetId m calls] by blast
  from a b c show ?thesis by blast
qed

theorem dedup_idempotent_witness:
  "open_incidents ''svc''
     (execute [(CreateFromHealthTransition ''svc'' Healthy Unhealthy, 1)] initial_manager) \<noteq> [] \<and>
   repeat_transitions ''svc'' [(Healthy, Unhealthy, 2), (Degraded, Unhealthy, 3)]
     (execute [(CreateFromHealthTransition ''svc'' Healthy Unhealthy, 1)] initial_manager)
     = execute [(CreateFromHealthTransition ''svc'' Healthy Unhealthy, 1)] initial_manager \<and>
   length (open_incidents ''svc''
     (execute [(CreateFromHealthTransition ''svc'' Healthy Unhealthy, 1)] initial_manager)) = 1 \<and>
   length (open_incidents ''svc''
     (repeat_transitions ''svc'' [(Healthy, Unhealthy, 2), (Degraded, Unhealthy, 3)]
        (execute [(CreateFromHealthTransition ''svc'' Healthy Unhealthy, 1)] initial_manager))) = 1 \<and>
   open_incidents ''svc'' initial_manager = [] \<and>
   list_all (\<lambda>(fromStatus, toStatus, now). is_degradation fromStatus toStatus)
     [(Healthy, Unhealthy, 2 :: rat), (Degraded, Unhealthy, 3)] \<and>
   length (open_incidents ''svc''
     (repeat_transitions ''svc'' [(Healthy, Unhealthy, 2), (Degraded, Unhealthy, 3)]
        initial_manager)) = 1"
proof -
  let ?m = "execute [(CreateFromHealthTransition ''svc'' Healthy Unhealthy, 1)] initial_manager"
  let ?calls = "[(Healthy, Unhealthy, 2 :: rat), (Degraded, Unhealthy, 3)]"
  have one: "length (open_incidents ''svc'' ?m) = 1"
    by (simp add: create_def initial_manager_def open_incidents_def
          createFromHealthTransition_def is_degradation_def Let_def)
  then have some: "open_incidents ''svc'' ?m \<noteq> []" by auto
  have none: "open_incidents ''svc'' initial_manager = []"
    by (simp add: initial_manager_def open_incidents_def)
  have deg: "list_all (\<lambda>(fromStatus, toStatus, now). is_degradation fromStatus toStatus) ?calls"
    by (simp add: is_degradation_def)
  have ne: "?calls \<noteq> []" by simp
  have r1: "repeat_transitions ''svc'' ?calls ?m = ?m"
    using some dedup_idempotent [of "''svc''" ?m ?calls] by blast
  have r2: "length (open_incidents ''svc'' (repeat_transitions ''svc'' ?calls ?m)) = 1"
    using one dedup_idempotent [of "''svc''" ?m ?calls] by blast
  have r3: "length (open_incidents ''svc'' (repeat_transitions ''svc'' ?calls initial_manager)) = 1"
    using none ne deg dedup_idempotent [of "''svc''" initial_manager ?calls] by blast
  from some r1 one r2 none deg r3 show ?thesis by blast
qed

lemma lookup_Some:
  "lookup iid m = Some i \<Longrightarrow> incident_id i = iid \<and> i \<in> set (incidents m)"
  unfolding lookup_def by (auto simp: find_Some_iff)

lemma find_map_update:
  assumes "\<And>j. incident_id (f j) = incident_id j"
  shows "find (\<lambda>i. incident_id i = k) (map (\<lambda>i. if incident_id i = iid then f i else i) xs)
       = map_option (\<lambda>i. if incident_id i = iid then f i else i) (find (\<lambda>i. incident_id i = k) xs)"
  using assms by (induction xs) auto

lemma lookup_update:
  assumes "\<And>j. incident_id (f j) = incident_id j"
  shows "lookup k (update_incident iid f m)
       = map_option (\<lambda>i. if incident_id i = iid then f i else i) (lookup k m)"
  unfolding lookup_def update_incident_def using find_map_update [OF assms] by simp

lemma lookup_create:
  assumes "ids_fresh m" and "lookup k m = Some i"
  shows "lookup k (snd (create ttl d sev t now m)) = Some i"
proof -
  from lookup_Some [OF assms(2)] have "incident_id i = k" and "i \<in> set (incidents m)" by simp_all
  with assms(1) have "k < next_id m" by (auto simp: ids_fresh_def list_all_iff)
  then show ?thesis using assms(2) by (simp add: create_def lookup_def Let_def)
qed

lemma ids_fresh_create: "ids_fresh m \<Longrightarrow> ids_fresh (snd (create ttl d sev t now m))"
  by (auto simp: ids_fresh_def create_def Let_def list_all_iff)

lemma ids_fresh_update:
  "(\<And>j. incident_id (f j) = incident_id j) \<Longrightarrow> ids_fresh m \<Longrightarrow> ids_fresh (update_incident iid f m)"
  by (auto simp: ids_fresh_def update_incident_def list_all_iff)

lemma snd_demo_Cons:
  "snd (generateDemoIncidents ((ttl, d, sev, t) # batch) now m)
     = snd (generateDemoIncidents batch now (snd (create ttl d sev t now m)))"
  by (simp split: prod.splits)

lemma ids_fresh_demo: "ids_fresh m \<Longrightarrow> ids_fresh (snd (generateDemoIncidents batch now m))"
proof (induction batch arbitrary: m)
  case Nil
  then show ?case by simp
next
  case (Cons b batch)
  obtain ttl d sev t where b: "b = (ttl, d, sev, t)" by (cases b)
  have "ids_fresh (snd (create ttl d sev t now m))" using Cons.prems by (rule ids_fresh_create)
  from Cons.IH [OF this] show ?case unfolding b snd_demo_Cons .
qed

lemma lookup_demo:
  "ids_fresh m \<Longrightarrow> lookup k m = Some i \<Longrightarrow> lookup k (snd (generateDemoIncidents batch now m)) = Some i"
proof (induction batch arbitrary: m)
  case Nil
  then show ?case by simp
next
  case (Cons b batch)
  obtain ttl d sev t where b: "b = (ttl, d, sev, t)" by (cases b)
  have f: "ids_fresh (snd (create ttl d sev t now m))" using Cons.prems(1) by (rule ids_fresh_create)
  have l: "lookup k (snd (create ttl d sev t now m)) = Some i" using Cons.prems by (rule lookup_create)
  from Cons.IH [OF f l] show ?case unfolding b snd_demo_Cons .
qed

lemma ids_fresh_step: "ids_fresh m \<Longrightarrow> ids_fresh (step c now m)"
proof (cases c)
  case (Create ttl d sev t)
  assume "ids_fresh m" then show ?thesis by (simp add: Create ids_fresh_create)
next
  case (CreateFromHealthTransition t f to)
  assume "ids_fresh m" then show ?thesis
    using ids_fresh_create [of m]
    by (auto simp add: CreateFromHealthTransition createFromHealthTransition_def split: prod.splits)
      (metis snd_conv)+
next
  case (AttachAnalysis iid analysis)
  assume "ids_fresh m" then show ?thesis
    by (simp add: AttachAnalysis attachAnalysis_def ids_fresh_update split: option.splits)
next
  case (Resolve iid)
  assume "ids_fresh m" then show ?thesis
    by (simp add: Resolve resolve_def ids_fresh_update split: option.splits incident_status.splits)
next
  case (GenerateDemoIncidents batch)
  assume "ids_fresh m" then show ?thesis by (simp add: GenerateDemoIncidents ids_fresh_demo)
qed

lemma ids_fresh_execute: "ids_fresh m \<Longrightarrow> ids_fresh (execute cs m)"
proof (induction cs arbitrary: m)
  case Nil then show ?case by simp
next
  case (Cons c cs)
  obtain cmd now where c: "c = (cmd, now)" by (cases c)
  from Cons show ?case by (simp add: c ids_fresh_step)
qed

lemma ids_fresh_initial: "ids_fresh initial_manager"
  by (simp add: ids_fresh_def initial_manager_def)


lemma resolve_unknown: "lookup iid m = None \<Longrightarrow> resolve iid now m = (Inl NotFoundError, m)"
  by (simp add: resolve_def)

lemma resolve_open:
  assumes "lookup iid m = Some i" and "status i = Open"
  shows "fst (resolve iid now m) = Inr (i\<lparr>status := Resolved, resolvedAt := Some now\<rparr>)"
    and "lookup iid (snd (resolve iid now m)) = Some (i\<lparr>status := Resolved, resolvedAt := Some now\<rparr>)"
    and "k \<noteq> iid \<Longrightarrow> lookup k (snd (resolve iid now m)) = lookup k m"
proof -
  have id: "incident_id i = iid" using lookup_Some [OF assms(1)] by simp
  have upd: "\<And>j. incident_id (j\<lparr>status := Resolved, resolvedAt := Some now\<rparr>) = incident_id j"
    by simp
  have s: "snd (resolve iid now m) = update_incident iid (\<lambda>j. j\<lparr>status := Resolved, resolvedAt := Some now\<rparr>) m"
    using assms by (simp add: resolve_def)
  show "fst (resolve iid now m) = Inr (i\<lparr>status := Resolved, resolvedAt := Some now\<rparr>)"
    using assms by (simp add: resolve_def)
  show "lookup iid (snd (resolve iid now m)) = Some (i\<lparr>status := Resolved, resolvedAt := Some now\<rparr>)"
    unfolding s lookup_update [OF upd] using assms(1) id by simp
  show "k \<noteq> iid \<Longrightarrow> lookup k (snd (resolve iid now m)) = lookup k m"
  proof -
    assume ne: "k \<noteq> iid"
    show ?thesis
    proof (cases "lookup k m")
      case None
      then show ?thesis unfolding s lookup_update [OF upd] by simp
    next
      case (Some j)
      then have "incident_id j = k" using lookup_Some by blast
      then show ?thesis unfolding s lookup_update [OF upd] using Some ne by simp
    qed
  qed
qed

lemma resolve_resolved:
  "lookup iid m = Some i \<Longrightarrow> status i = Resolved \<Longrightarrow> resolve iid now m = (Inr i, m)"
  by (simp add: resolve_def)

lemma attach_unknown: "lookup iid m = None \<Longrightarrow> attachAnalysis iid a m = (Inl NotFoundError, m)"
  by (simp add: attachAnalysis_def)

lemma attach_null:
  assumes "lookup iid m = Some i" and "aiAnalysis i = None"
  shows "fst (attachAnalysis iid a m) = Inr (i\<lparr>aiAnalysis := Some a\<rparr>)"
    and "lookup iid (snd (attachAnalysis iid a m)) = Some (i\<lparr>aiAnalysis := Some a\<rparr>)"
proof -
  have id: "incident_id i = iid" using lookup_Some [OF assms(1)] by simp
  have upd: "\<And>j. incident_id (j\<lparr>aiAnalysis := Some a\<rparr>) = incident_id j"
    by simp
  have s: "snd (attachAnalysis iid a m) = update_incident iid (\<lambda>j. j\<lparr>aiAnalysis := Some a\<rparr>) m"
    using assms by (simp add: attachAnalysis_def)
  show "fst (attachAnalysis iid a m) = Inr (i\<lparr>aiAnalysis := Some a\<rparr>)"
    using assms by (simp add: attachAnalysis_def)
  show "lookup iid (snd (attachAnalysis iid a m)) = Some (i\<lparr>aiAnalysis := Some a\<rparr>)"
    unfolding s lookup_update [OF upd] using assms(1) id by simp
qed

lemma attach_set:
  "lookup iid m = Some i \<Longrightarrow> aiAnalysis i = Some b \<Longrightarrow> attachAnalysis iid a m = (Inr i, m)"
  by (simp add: attachAnalysis_def)

lemma attach_twice:
  assumes "lookup iid m = Some i" and "aiAnalysis i = None"
  shows "attachAnalysis iid a2 (snd (attachAnalysis iid a1 m))
         = (Inr (i\<lparr>aiAnalysis := Some a1\<rparr>), snd (attachAnalysis iid a1 m))"
  using attach_null(2) [OF assms, of a1] by (rule attach_set) simp


lemma cfht_snd:
  "snd (createFromHealthTransition t f to now m) =
     (if is_degradation f to \<and> open_incidents t m = []
      then snd (create ''Health degradation'' ''Reported by the Health Evaluator''
                  (if to = Unhealthy then High else Medium) t now m)
      else m)"
  by (simp add: createFromHealthTransition_def split: prod.splits)

lemma keeps_refl: "keeps i i"
  by (simp add: keeps_def)

lemma keeps_analysis: "aiAnalysis i = None \<Longrightarrow> keeps i (i\<lparr>aiAnalysis := Some a\<rparr>)"
  by (simp add: keeps_def)

lemma keeps_resolve: "status i = Open \<Longrightarrow> keeps i (i\<lparr>status := Resolved, resolvedAt := Some now\<rparr>)"
  by (simp add: keeps_def)

lemma step_keeps:
  assumes fresh: "ids_fresh m" and l: "lookup k m = Some i"
  shows "\<exists>i'. lookup k (step c now m) = Some i' \<and> keeps i i'"
proof (cases c)
  case (Create ttl d sev t)
  then show ?thesis using lookup_create [OF fresh l] keeps_refl by simp
next
  case (CreateFromHealthTransition t f to)
  have "lookup k (snd (createFromHealthTransition t f to now m)) = Some i"
    unfolding cfht_snd using lookup_create [OF fresh l] l by simp
  then show ?thesis using keeps_refl by (simp add: CreateFromHealthTransition)
next
  case (AttachAnalysis iid a)
  have id: "incident_id i = k" using lookup_Some [OF l] by simp
  show ?thesis
  proof (cases "k = iid")
    case False
    have upd: "\<And>j. incident_id (j\<lparr>aiAnalysis := Some a\<rparr>) = incident_id j" by simp
    have "lookup k (snd (attachAnalysis iid a m)) = Some i"
      using l id False
      by (simp add: attachAnalysis_def lookup_update [OF upd] split: option.splits)
    then show ?thesis using keeps_refl by (simp add: AttachAnalysis)
  next
    case True
    show ?thesis
    proof (cases "aiAnalysis i")
      case None
      have "lookup k (snd (attachAnalysis k a m)) = Some (i\<lparr>aiAnalysis := Some a\<rparr>)"
        using l None by (rule attach_null(2))
      then show ?thesis using keeps_analysis [OF None] by (simp add: AttachAnalysis True)
    next
      case (Some b)
      have "attachAnalysis k a m = (Inr i, m)" using l Some by (rule attach_set)
      then show ?thesis using l keeps_refl by (simp add: AttachAnalysis True)
    qed
  qed
next
  case (Resolve iid)
  have id: "incident_id i = k" using lookup_Some [OF l] by simp
  show ?thesis
  proof (cases "k = iid")
    case False
    show ?thesis
    proof (cases "lookup iid m")
      case None
      then show ?thesis using l keeps_refl by (simp add: Resolve resolve_unknown)
    next
      case (Some j)
      show ?thesis
      proof (cases "status j")
        case Open
        have "lookup k (snd (resolve iid now m)) = lookup k m"
          using Some Open False by (rule resolve_open(3))
        then show ?thesis using l keeps_refl by (simp add: Resolve)
      next
        case Resolved
        have "resolve iid now m = (Inr j, m)" using Some Resolved by (rule resolve_resolved)
        then show ?thesis using l keeps_refl by (simp add: Resolve)
      qed
    qed
  next
    case True
    show ?thesis
    proof (cases "status i")
      case Open
      have "lookup k (snd (resolve k now m)) = Some (i\<lparr>status := Resolved, resolvedAt := Some now\<rparr>)"
        using l Open by (rule resolve_open(2))
      then show ?thesis using keeps_resolve [OF Open] by (simp add: Resolve True)
    next
      case Resolved
      have "resolve k now m = (Inr i, m)" using l Resolved by (rule resolve_resolved)
      then show ?thesis using l keeps_refl by (simp add: Resolve True)
    qed
  qed
next
  case (GenerateDemoIncidents batch)
  then show ?thesis using lookup_demo [OF fresh l] keeps_refl by simp
qed


lemma consistent_create:
  "list_all resolved_consistent (incidents m) \<Longrightarrow>
   list_all resolved_consistent (incidents (snd (create ttl d sev t now m)))"
  by (simp add: create_def Let_def resolved_consistent_def)

lemma consistent_demo:
  "list_all resolved_consistent (incidents m) \<Longrightarrow>
   list_all resolved_consistent (incidents (snd (generateDemoIncidents batch now m)))"
proof (induction batch arbitrary: m)
  case Nil
  then show ?case by simp
next
  case (Cons b batch)
  obtain ttl d sev t where b: "b = (ttl, d, sev, t)" by (cases b)
  have "list_all resolved_consistent (incidents (snd (create ttl d sev t now m)))"
    using Cons.prems by (rule consistent_create)
  from Cons.IH [OF this] show ?case unfolding b snd_demo_Cons .
qed

lemma consistent_update:
  assumes "\<And>j. resolved_consistent j \<Longrightarrow> resolved_consistent (f j)"
    and "list_all resolved_consistent (incidents m)"
  shows "list_all resolved_consistent (incidents (update_incident iid f m))"
  using assms by (auto simp add: update_incident_def list_all_iff)

lemma consistent_attach:
  assumes "list_all resolved_consistent (incidents m)"
  shows "list_all resolved_consistent (incidents (snd (attachAnalysis iid a m)))"
proof -
  have "list_all resolved_consistent
          (incidents (update_incident iid (\<lambda>j. j\<lparr>aiAnalysis := Some a\<rparr>) m))"
    using _ assms by (rule consistent_update) (simp add: resolved_consistent_def)
  then show ?thesis using assms by (simp add: attachAnalysis_def split: option.splits)
qed

lemma consistent_resolve:
  assumes "list_all resolved_consistent (incidents m)"
  shows "list_all resolved_consistent (incidents (snd (resolve iid now m)))"
proof -
  have "list_all resolved_consistent
          (incidents (update_incident iid (\<lambda>j. j\<lparr>status := Resolved, resolvedAt := Some now\<rparr>) m))"
    using _ assms by (rule consistent_update) (simp add: resolved_consistent_def)
  then show ?thesis using assms
    by (simp add: resolve_def split: option.splits incident_status.splits)
qed

lemma consistent_step:
  assumes "list_all resolved_consistent (incidents m)"
  shows "list_all resolved_consistent (incidents (step c now m))"
proof (cases c)
  case (Create ttl d sev t)
  then show ?thesis using assms by (simp add: consistent_create)
next
  case (CreateFromHealthTransition t f to)
  then show ?thesis using assms consistent_create [OF assms] by (simp add: cfht_snd)
next
  case (AttachAnalysis iid a)
  then show ?thesis using assms by (simp add: consistent_attach)
next
  case (Resolve iid)
  then show ?thesis using assms by (simp add: consistent_resolve)
next
  case (GenerateDemoIncidents batch)
  then show ?thesis using assms by (simp add: consistent_demo)
qed

lemma consistent_execute:
  "list_all resolved_consistent (incidents m) \<Longrightarrow>
   list_all resolved_consistent (incidents (execute cs m))"
proof (induction cs arbitrary: m)
  case Nil then show ?case by simp
next
  case (Cons c cs)
  obtain cmd now where c: "c = (cmd, now)" by (cases c)
  from Cons show ?case by (simp add: c consistent_step)
qed

lemma consistent_reachable:
  "list_all resolved_consistent (incidents (execute cs initial_manager))"
  by (rule consistent_execute) (simp add: initial_manager_def)

subsection \<open>C2: resolution\<close>

text \<open>
  C2: \<open>resolve\<close> on an unknown id fails with \<open>NotFoundError\<close> and leaves the state as it
  is; on a known open incident it sets \<open>status = resolved\<close> and \<open>resolvedAt = now\<close> and
  changes no other incident; on a resolved incident it is a no-op that returns the
  incident; in every state that the Incident Manager reaches, every incident has
  \<open>resolvedAt\<close> set if and only if its status is \<open>resolved\<close>; and no command reopens a
  resolved incident of a reached state or changes its \<open>resolvedAt\<close>.
\<close>

theorem resolve_contract:
  "(lookup iid m = None \<longrightarrow> resolve iid now m = (Inl NotFoundError, m)) \<and>
   (lookup iid m = Some i \<and> status i = Open \<longrightarrow>
      fst (resolve iid now m) = Inr (i\<lparr>status := Resolved, resolvedAt := Some now\<rparr>) \<and>
      lookup iid (snd (resolve iid now m))
        = Some (i\<lparr>status := Resolved, resolvedAt := Some now\<rparr>) \<and>
      (\<forall>k. k \<noteq> iid \<longrightarrow> lookup k (snd (resolve iid now m)) = lookup k m)) \<and>
   (lookup iid m = Some i \<and> status i = Resolved \<longrightarrow> resolve iid now m = (Inr i, m)) \<and>
   list_all resolved_consistent (incidents (execute cs initial_manager)) \<and>
   (lookup iid (execute cs initial_manager) = Some i \<and> status i = Resolved \<longrightarrow>
      (\<exists>i'. lookup iid (step c now (execute cs initial_manager)) = Some i' \<and>
            status i' = Resolved \<and> resolvedAt i' = resolvedAt i))"
proof -
  have a: "lookup iid m = None \<longrightarrow> resolve iid now m = (Inl NotFoundError, m)"
    using resolve_unknown [of iid m now] by blast
  have b: "lookup iid m = Some i \<and> status i = Open \<longrightarrow>
      fst (resolve iid now m) = Inr (i\<lparr>status := Resolved, resolvedAt := Some now\<rparr>) \<and>
      lookup iid (snd (resolve iid now m))
        = Some (i\<lparr>status := Resolved, resolvedAt := Some now\<rparr>) \<and>
      (\<forall>k. k \<noteq> iid \<longrightarrow> lookup k (snd (resolve iid now m)) = lookup k m)"
    using resolve_open [where iid = iid and m = m and i = i and now = now] by blast
  have c: "lookup iid m = Some i \<and> status i = Resolved \<longrightarrow> resolve iid now m = (Inr i, m)"
    using resolve_resolved [of iid m i now] by blast
  have d: "list_all resolved_consistent (incidents (execute cs initial_manager))"
    by (rule consistent_reachable)
  have e: "lookup iid (execute cs initial_manager) = Some i \<and> status i = Resolved \<longrightarrow>
      (\<exists>i'. lookup iid (step c now (execute cs initial_manager)) = Some i' \<and>
            status i' = Resolved \<and> resolvedAt i' = resolvedAt i)"
  proof
    assume h: "lookup iid (execute cs initial_manager) = Some i \<and> status i = Resolved"
    have "ids_fresh (execute cs initial_manager)"
      using ids_fresh_initial by (rule ids_fresh_execute)
    from step_keeps [OF this, of iid i c now] h
    obtain i' where "lookup iid (step c now (execute cs initial_manager)) = Some i'"
      and "keeps i i'" by blast
    with h show "\<exists>i'. lookup iid (step c now (execute cs initial_manager)) = Some i' \<and>
            status i' = Resolved \<and> resolvedAt i' = resolvedAt i"
      by (auto simp: keeps_def)
  qed
  from a b c d e show ?thesis by blast
qed

theorem resolve_contract_witness:
  "lookup 7 (execute [(Create ''Errors'' ''Failing requests'' High ''svc'', 1)] initial_manager)
     = None \<and>
   resolve 7 5 (execute [(Create ''Errors'' ''Failing requests'' High ''svc'', 1)] initial_manager)
     = (Inl NotFoundError,
        execute [(Create ''Errors'' ''Failing requests'' High ''svc'', 1)] initial_manager) \<and>
   lookup 1 (execute [(Create ''Errors'' ''Failing requests'' High ''svc'', 1)] initial_manager)
     = Some \<lparr>incident_id = 1, title = ''Errors'', description = ''Failing requests'',
             severity = High, status = Open, createdAt = 1, resolvedAt = None,
             aiAnalysis = None, sourceTargetId = ''svc''\<rparr> \<and>
   lookup 1 (snd (resolve 1 5
       (execute [(Create ''Errors'' ''Failing requests'' High ''svc'', 1)] initial_manager)))
     = Some \<lparr>incident_id = 1, title = ''Errors'', description = ''Failing requests'',
             severity = High, status = Resolved, createdAt = 1, resolvedAt = Some 5,
             aiAnalysis = None, sourceTargetId = ''svc''\<rparr> \<and>
   resolve 1 9 (snd (resolve 1 5
       (execute [(Create ''Errors'' ''Failing requests'' High ''svc'', 1)] initial_manager)))
     = (Inr \<lparr>incident_id = 1, title = ''Errors'', description = ''Failing requests'',
             severity = High, status = Resolved, createdAt = 1, resolvedAt = Some 5,
             aiAnalysis = None, sourceTargetId = ''svc''\<rparr>,
        snd (resolve 1 5
          (execute [(Create ''Errors'' ''Failing requests'' High ''svc'', 1)] initial_manager)))"
proof -
  let ?m = "execute [(Create ''Errors'' ''Failing requests'' High ''svc'', 1)] initial_manager"
  let ?i = "\<lparr>incident_id = 1, title = ''Errors'', description = ''Failing requests'',
             severity = High, status = Open, createdAt = 1 :: rat, resolvedAt = None,
             aiAnalysis = None, sourceTargetId = ''svc''\<rparr>"
  let ?r = "\<lparr>incident_id = 1, title = ''Errors'', description = ''Failing requests'',
             severity = High, status = Resolved, createdAt = 1 :: rat, resolvedAt = Some 5,
             aiAnalysis = None, sourceTargetId = ''svc''\<rparr>"
  have unknown: "lookup 7 ?m = None"
    by (simp add: create_def initial_manager_def lookup_def Let_def)
  have known: "lookup 1 ?m = Some ?i"
    by (simp add: create_def initial_manager_def lookup_def Let_def)
  have opn: "status ?i = Open" by simp
  have upd: "?i\<lparr>status := Resolved, resolvedAt := Some 5\<rparr> = ?r" by simp
  have r1: "resolve 7 5 ?m = (Inl NotFoundError, ?m)"
    using unknown resolve_contract [of 7 ?m 5] by blast
  have "lookup 1 (snd (resolve 1 5 ?m)) = Some (?i\<lparr>status := Resolved, resolvedAt := Some 5\<rparr>)"
    using known opn resolve_contract [of 1 ?m 5 ?i] by blast
  then have r2: "lookup 1 (snd (resolve 1 5 ?m)) = Some ?r"
    unfolding upd .
  have res: "status ?r = Resolved" by simp
  have r3: "resolve 1 9 (snd (resolve 1 5 ?m)) = (Inr ?r, snd (resolve 1 5 ?m))"
    using r2 res resolve_contract [of 1 "snd (resolve 1 5 ?m)" 9 ?r] by blast
  from unknown r1 known r2 r3 show ?thesis by blast
qed

subsection \<open>C3: the analysis of an incident\<close>

text \<open>
  C3: \<open>attachAnalysis\<close> sets \<open>aiAnalysis\<close> of a known incident when it is null, and is a
  no-op that returns the incident, not an error, when it is set; so a second
  \<open>attachAnalysis\<close> on the same incident changes nothing and \<open>aiAnalysis\<close> stays the text
  of the first call; and no command of the Incident Manager takes a set \<open>aiAnalysis\<close> of
  an incident of a reached state back to null or to another text.
\<close>

theorem attach_analysis_contract:
  "(lookup iid m = Some i \<and> aiAnalysis i = None \<longrightarrow>
      fst (attachAnalysis iid a m) = Inr (i\<lparr>aiAnalysis := Some a\<rparr>) \<and>
      lookup iid (snd (attachAnalysis iid a m)) = Some (i\<lparr>aiAnalysis := Some a\<rparr>)) \<and>
   (lookup iid m = Some i \<and> aiAnalysis i = Some b \<longrightarrow> attachAnalysis iid a m = (Inr i, m)) \<and>
   (lookup iid m = Some i \<and> aiAnalysis i = None \<longrightarrow>
      attachAnalysis iid a2 (snd (attachAnalysis iid a m))
        = (Inr (i\<lparr>aiAnalysis := Some a\<rparr>), snd (attachAnalysis iid a m))) \<and>
   (lookup iid (execute cs initial_manager) = Some i \<and> aiAnalysis i = Some b \<longrightarrow>
      (\<exists>i'. lookup iid (step c now (execute cs initial_manager)) = Some i' \<and>
            aiAnalysis i' = Some b))"
proof -
  have p: "lookup iid m = Some i \<and> aiAnalysis i = None \<longrightarrow>
      fst (attachAnalysis iid a m) = Inr (i\<lparr>aiAnalysis := Some a\<rparr>) \<and>
      lookup iid (snd (attachAnalysis iid a m)) = Some (i\<lparr>aiAnalysis := Some a\<rparr>)"
    using attach_null [of iid m i a] by blast
  have q: "lookup iid m = Some i \<and> aiAnalysis i = Some b \<longrightarrow> attachAnalysis iid a m = (Inr i, m)"
    using attach_set [of iid m i b a] by blast
  have r: "lookup iid m = Some i \<and> aiAnalysis i = None \<longrightarrow>
      attachAnalysis iid a2 (snd (attachAnalysis iid a m))
        = (Inr (i\<lparr>aiAnalysis := Some a\<rparr>), snd (attachAnalysis iid a m))"
    using attach_twice [of iid m i a2 a] by blast
  have s: "lookup iid (execute cs initial_manager) = Some i \<and> aiAnalysis i = Some b \<longrightarrow>
      (\<exists>i'. lookup iid (step c now (execute cs initial_manager)) = Some i' \<and>
            aiAnalysis i' = Some b)"
  proof
    assume h: "lookup iid (execute cs initial_manager) = Some i \<and> aiAnalysis i = Some b"
    have "ids_fresh (execute cs initial_manager)"
      using ids_fresh_initial by (rule ids_fresh_execute)
    from step_keeps [OF this, of iid i c now] h
    obtain i' where "lookup iid (step c now (execute cs initial_manager)) = Some i'"
      and "keeps i i'" by blast
    with h show "\<exists>i'. lookup iid (step c now (execute cs initial_manager)) = Some i' \<and>
            aiAnalysis i' = Some b"
      by (auto simp: keeps_def)
  qed
  from p q r s show ?thesis by blast
qed

theorem attach_analysis_contract_witness:
  "lookup 1 (execute [(Create ''Errors'' ''Failing requests'' High ''svc'', 1)] initial_manager)
     = Some \<lparr>incident_id = 1, title = ''Errors'', description = ''Failing requests'',
             severity = High, status = Open, createdAt = 1, resolvedAt = None,
             aiAnalysis = None, sourceTargetId = ''svc''\<rparr> \<and>
   lookup 1 (snd (attachAnalysis 1 ''Pool exhausted''
       (execute [(Create ''Errors'' ''Failing requests'' High ''svc'', 1)] initial_manager)))
     = Some \<lparr>incident_id = 1, title = ''Errors'', description = ''Failing requests'',
             severity = High, status = Open, createdAt = 1, resolvedAt = None,
             aiAnalysis = Some ''Pool exhausted'', sourceTargetId = ''svc''\<rparr> \<and>
   attachAnalysis 1 ''Disk full'' (snd (attachAnalysis 1 ''Pool exhausted''
       (execute [(Create ''Errors'' ''Failing requests'' High ''svc'', 1)] initial_manager)))
     = (Inr \<lparr>incident_id = 1, title = ''Errors'', description = ''Failing requests'',
             severity = High, status = Open, createdAt = 1, resolvedAt = None,
             aiAnalysis = Some ''Pool exhausted'', sourceTargetId = ''svc''\<rparr>,
        snd (attachAnalysis 1 ''Pool exhausted''
          (execute [(Create ''Errors'' ''Failing requests'' High ''svc'', 1)] initial_manager)))"
proof -
  let ?m = "execute [(Create ''Errors'' ''Failing requests'' High ''svc'', 1)] initial_manager"
  let ?i = "\<lparr>incident_id = 1, title = ''Errors'', description = ''Failing requests'',
             severity = High, status = Open, createdAt = 1 :: rat, resolvedAt = None,
             aiAnalysis = None, sourceTargetId = ''svc''\<rparr>"
  let ?r = "\<lparr>incident_id = 1, title = ''Errors'', description = ''Failing requests'',
             severity = High, status = Open, createdAt = 1 :: rat, resolvedAt = None,
             aiAnalysis = Some ''Pool exhausted'', sourceTargetId = ''svc''\<rparr>"
  have known: "lookup 1 ?m = Some ?i"
    by (simp add: create_def initial_manager_def lookup_def Let_def)
  have null: "aiAnalysis ?i = None" by simp
  have upd: "?i\<lparr>aiAnalysis := Some ''Pool exhausted''\<rparr> = ?r" by simp
  have "lookup 1 (snd (attachAnalysis 1 ''Pool exhausted'' ?m))
          = Some (?i\<lparr>aiAnalysis := Some ''Pool exhausted''\<rparr>)"
    using known null attach_analysis_contract [of 1 ?m ?i "''Pool exhausted''"] by blast
  then have r1: "lookup 1 (snd (attachAnalysis 1 ''Pool exhausted'' ?m)) = Some ?r"
    unfolding upd .
  have "attachAnalysis 1 ''Disk full'' (snd (attachAnalysis 1 ''Pool exhausted'' ?m))
          = (Inr (?i\<lparr>aiAnalysis := Some ''Pool exhausted''\<rparr>),
             snd (attachAnalysis 1 ''Pool exhausted'' ?m))"
    using known null
      attach_analysis_contract [of 1 ?m ?i "''Pool exhausted''" _ "''Disk full''"]
    by blast
  then have r2: "attachAnalysis 1 ''Disk full'' (snd (attachAnalysis 1 ''Pool exhausted'' ?m))
          = (Inr ?r, snd (attachAnalysis 1 ''Pool exhausted'' ?m))"
    unfolding upd .
  from known r1 r2 show ?thesis by blast
qed

lemma runs_healthy:
  "list_all (\<lambda>(t, st). st \<noteq> Unhealthy) h \<Longrightarrow> unhealthy_runs None (h @ rest) = unhealthy_runs None rest"
  by (induction h) auto

lemma runs_healthy_end:
  "list_all (\<lambda>(t, st). st \<noteq> Unhealthy) h \<Longrightarrow>
   unhealthy_runs (Some r) h = [r]"
proof (induction h)
  case Nil
  then show ?case by simp
next
  case (Cons x h)
  obtain t st where x: "x = (t, st)" by (cases x)
  from Cons.prems have "list_all (\<lambda>(t, st). st \<noteq> Unhealthy) h" and "st \<noteq> Unhealthy"
    by (simp_all add: x)
  then show ?case using runs_healthy [of h "[]"] by (simp add: x)
qed

lemma runs_unhealthy:
  "unhealthy_runs (Some (a, b)) (map (\<lambda>t. (t, Unhealthy)) ts @ rest)
     = unhealthy_runs (Some (a, last (b # ts))) rest"
  by (induction ts arbitrary: b) auto

lemma downtime_one_run:
  assumes "list_all (\<lambda>(t, st). st \<noteq> Unhealthy) before"
    and "list_all (\<lambda>(t, st). st \<noteq> Unhealthy) after"
  shows "downtime (before @ (a, Unhealthy) # map (\<lambda>t. (t, Unhealthy)) ts @ after) = last (a # ts) - a"
proof -
  have "unhealthy_runs None (before @ (a, Unhealthy) # map (\<lambda>t. (t, Unhealthy)) ts @ after)
        = unhealthy_runs None ((a, Unhealthy) # map (\<lambda>t. (t, Unhealthy)) ts @ after)"
    using assms(1) by (rule runs_healthy)
  also have "\<dots> = unhealthy_runs (Some (a, a)) (map (\<lambda>t. (t, Unhealthy)) ts @ after)"
    by simp
  also have "\<dots> = unhealthy_runs (Some (a, last (a # ts))) after"
    by (rule runs_unhealthy)
  also have "\<dots> = [(a, last (a # ts))]"
    using assms(2) by (rule runs_healthy_end)
  finally show ?thesis by (simp add: downtime_def)
qed

lemma compute_uptime:
  "uptimePercentage (compute w target now h is) = 100 * (w - downtimeMinutes (compute w target now h is)) / w"
  "availabilityPercentage (compute w target now h is) = uptimePercentage (compute w target now h is)"
  by (simp_all add: compute_def Let_def)

subsection \<open>C4: the SLA figures\<close>

text \<open>
  C4: the SLA Calculator reports \<open>uptimePercentage = 100 * (windowMinutes -
  downtimeMinutes) / windowMinutes\<close> and, without an exclusion policy, the same value as
  \<open>availabilityPercentage\<close>; and for a health history with one run of \<open>unhealthy\<close>
  readings whose last reading is 10 minutes after its first, in a window of 43200
  minutes, it reports \<open>downtimeMinutes = 10\<close> and \<open>availabilityPercentage = 100 * 43190 /
  43200\<close>, which is 99.97685..., less than 0.0002 away from 99.9767.
\<close>

theorem sla_report_formulas:
  "uptimePercentage (compute w target now history is)
     = 100 * (w - downtimeMinutes (compute w target now history is)) / w \<and>
   availabilityPercentage (compute w target now history is)
     = uptimePercentage (compute w target now history is) \<and>
   (list_all (\<lambda>(t, st). st \<noteq> Unhealthy) pre \<and> list_all (\<lambda>(t, st). st \<noteq> Unhealthy) post \<and>
    last (a # ts) = a + 10 \<longrightarrow>
      downtimeMinutes
        (compute 43200 target now (pre @ (a, Unhealthy) # map (\<lambda>t. (t, Unhealthy)) ts @ post) is)
        = 10 \<and>
      availabilityPercentage
        (compute 43200 target now (pre @ (a, Unhealthy) # map (\<lambda>t. (t, Unhealthy)) ts @ post) is)
        = 100 * 43190 / 43200 \<and>
      \<bar>availabilityPercentage
          (compute 43200 target now (pre @ (a, Unhealthy) # map (\<lambda>t. (t, Unhealthy)) ts @ post) is)
        - 999767 / 10000\<bar> < 2 / 10000)"
proof -
  have f: "uptimePercentage (compute w target now history is)
     = 100 * (w - downtimeMinutes (compute w target now history is)) / w \<and>
   availabilityPercentage (compute w target now history is)
     = uptimePercentage (compute w target now history is)"
    using compute_uptime [of w target now history "is"] by blast
  have g: "list_all (\<lambda>(t, st). st \<noteq> Unhealthy) pre \<and> list_all (\<lambda>(t, st). st \<noteq> Unhealthy) post \<and>
    last (a # ts) = a + 10 \<longrightarrow>
      downtimeMinutes
        (compute 43200 target now (pre @ (a, Unhealthy) # map (\<lambda>t. (t, Unhealthy)) ts @ post) is)
        = 10 \<and>
      availabilityPercentage
        (compute 43200 target now (pre @ (a, Unhealthy) # map (\<lambda>t. (t, Unhealthy)) ts @ post) is)
        = 100 * 43190 / 43200 \<and>
      \<bar>availabilityPercentage
          (compute 43200 target now (pre @ (a, Unhealthy) # map (\<lambda>t. (t, Unhealthy)) ts @ post) is)
        - 999767 / 10000\<bar> < 2 / 10000"
  proof
    assume h: "list_all (\<lambda>(t, st). st \<noteq> Unhealthy) pre \<and>
      list_all (\<lambda>(t, st). st \<noteq> Unhealthy) post \<and> last (a # ts) = a + 10"
    then have "downtime (pre @ (a, Unhealthy) # map (\<lambda>t. (t, Unhealthy)) ts @ post)
                 = last (a # ts) - a"
      using downtime_one_run [of pre post a ts] by blast
    with h have d: "downtime (pre @ (a, Unhealthy) # map (\<lambda>t. (t, Unhealthy)) ts @ post) = 10"
      by simp
    show "downtimeMinutes
        (compute 43200 target now (pre @ (a, Unhealthy) # map (\<lambda>t. (t, Unhealthy)) ts @ post) is)
        = 10 \<and>
      availabilityPercentage
        (compute 43200 target now (pre @ (a, Unhealthy) # map (\<lambda>t. (t, Unhealthy)) ts @ post) is)
        = 100 * 43190 / 43200 \<and>
      \<bar>availabilityPercentage
          (compute 43200 target now (pre @ (a, Unhealthy) # map (\<lambda>t. (t, Unhealthy)) ts @ post) is)
        - 999767 / 10000\<bar> < 2 / 10000"
      unfolding compute_def Let_def d by simp
  qed
  from f g show ?thesis by blast
qed

theorem sla_report_formulas_witness:
  "downtimeMinutes
     (compute 43200 (999 / 10) 200
        [(0, Healthy), (100, Unhealthy), (105, Unhealthy), (110, Unhealthy), (115, Healthy)] [])
     = 10 \<and>
   availabilityPercentage
     (compute 43200 (999 / 10) 200
        [(0, Healthy), (100, Unhealthy), (105, Unhealthy), (110, Unhealthy), (115, Healthy)] [])
     = 100 * 43190 / 43200 \<and>
   uptimePercentage
     (compute 43200 (999 / 10) 200
        [(0, Healthy), (100, Unhealthy), (105, Unhealthy), (110, Unhealthy), (115, Healthy)] [])
     = 100 * 43190 / 43200"
proof -
  have h: "list_all (\<lambda>(t, st). st \<noteq> Unhealthy) [(0 :: rat, Healthy)] \<and>
     list_all (\<lambda>(t, st). st \<noteq> Unhealthy) [(115 :: rat, Healthy)] \<and>
     last ((100 :: rat) # [105, 110]) = 100 + 10"
    by simp
  have e: "[(0 :: rat, Healthy)] @ (100, Unhealthy) # map (\<lambda>t. (t, Unhealthy)) [105, 110]
             @ [(115, Healthy)]
           = [(0, Healthy), (100, Unhealthy), (105, Unhealthy), (110, Unhealthy), (115, Healthy)]"
    by simp
  have "downtimeMinutes
      (compute 43200 (999 / 10) 200
         ([(0, Healthy)] @ (100, Unhealthy) # map (\<lambda>t. (t, Unhealthy)) [105, 110]
            @ [(115, Healthy)]) [])
      = 10 \<and>
    availabilityPercentage
      (compute 43200 (999 / 10) 200
         ([(0, Healthy)] @ (100, Unhealthy) # map (\<lambda>t. (t, Unhealthy)) [105, 110]
            @ [(115, Healthy)]) [])
      = 100 * 43190 / 43200 \<and>
    availabilityPercentage
      (compute 43200 (999 / 10) 200
         ([(0, Healthy)] @ (100, Unhealthy) # map (\<lambda>t. (t, Unhealthy)) [105, 110]
            @ [(115, Healthy)]) [])
      = uptimePercentage
      (compute 43200 (999 / 10) 200
         ([(0, Healthy)] @ (100, Unhealthy) # map (\<lambda>t. (t, Unhealthy)) [105, 110]
            @ [(115, Healthy)]) [])"
    using h
      sla_report_formulas [of 43200 "999 / 10" 200
        "[(0, Healthy)] @ (100, Unhealthy) # map (\<lambda>t. (t, Unhealthy)) [105, 110] @ [(115, Healthy)]"
        "[]" "[(0, Healthy)]" "[(115, Healthy)]" 100 "[105, 110]"]
    by blast
  then show ?thesis unfolding e by simp
qed

end
